theory Spec2Isabelle
  imports Main
begin

section \<open>Python values used by the catalog pipeline\<close>

text \<open>
  A Python \<open>str\<close> is a sequence of Unicode code points, so a character is modelled by its
  code point and a string by the list of its code points. \<open>ascii\<close> turns a literal of the
  theory into such a string (every literal below is ASCII, except the Persian comma
  U+060C, written as the number 1548).
\<close>

type_synonym uchar = nat
type_synonym ustr = "uchar list"

definition ascii :: "string \<Rightarrow> ustr" where
  "ascii = map of_char"

text \<open>
  \<open>str.isspace\<close> of one character: the code points CPython's
  \<open>_PyUnicode_IsWhitespace\<close> accepts. \<open>str.strip()\<close> without argument removes
  these from both ends.
\<close>

definition isspace :: "uchar \<Rightarrow> bool" where
  "isspace c = ((9 \<le> c \<and> c \<le> 13) \<or> (28 \<le> c \<and> c \<le> 32) \<or> c = 133 \<or> c = 160
     \<or> c = 5760 \<or> (8192 \<le> c \<and> c \<le> 8202) \<or> c = 8232 \<or> c = 8233 \<or> c = 8239
     \<or> c = 8287 \<or> c = 12288)"

definition strip :: "ustr \<Rightarrow> ustr" where
  "strip s = rev (dropWhile isspace (rev (dropWhile isspace s)))"

definition startswith :: "ustr \<Rightarrow> ustr \<Rightarrow> bool" where
  "startswith s sep = (take (length sep) s = sep)"

text \<open>\<open>sep in s\<close> for two strings: \<open>sep\<close> occurs in \<open>s\<close> as a contiguous substring.\<close>

fun contains :: "ustr \<Rightarrow> ustr \<Rightarrow> bool" where
  "contains sep [] = (sep = [])"
| "contains sep (c # cs) = (startswith (c # cs) sep \<or> contains sep cs)"

text \<open>
  \<open>s.split(sep)\<close>: the string is cut at the leftmost, non-overlapping occurrences of
  \<open>sep\<close>; \<open>piece\<close> collects the characters read since the last cut. An empty separator
  raises \<open>ValueError\<close>.
\<close>

datatype error = ValueError | TypeError | AttributeError | KeyError | IndexError | ReadError

fun split_from :: "ustr \<Rightarrow> ustr \<Rightarrow> ustr \<Rightarrow> ustr list" where
  "split_from sep piece [] = [piece]"
| "split_from sep piece (c # cs) =
     (if startswith (c # cs) sep then piece # split_from sep [] (drop (length sep - 1) cs)
      else split_from sep (piece @ [c]) cs)"

definition split_str :: "ustr \<Rightarrow> ustr \<Rightarrow> error + ustr list" where
  "split_str s sep = (if sep = [] then Inl ValueError else Inr (split_from sep [] s))"

text \<open>
  What the code receives from the Python runtime and does not define itself is a
  parameter of the model: the conversions between floats and text, the truth value of a
  float (\<open>x != 0\<close>, so NaN is true) and \<open>str.lower\<close>, which follows the Unicode case
  tables. \<open>'f\<close> is the type of Python floats.
\<close>

record 'f runtime =
  float_of_str :: "ustr \<Rightarrow> 'f option"
  float_of_int :: "int \<Rightarrow> 'f"
  str_of_float :: "'f \<Rightarrow> ustr"
  float_truth :: "'f \<Rightarrow> bool"
  str_lower :: "ustr \<Rightarrow> ustr"

text \<open>
  One cell of a row of the data frame \<open>pd.read_csv\<close> returns: text, an integer, a float
  (an empty cell is read as the float NaN) or a boolean.
\<close>

datatype 'f cell = CStr ustr | CInt int | CFloat 'f | CBool bool

fun truthy :: "'f runtime \<Rightarrow> 'f cell \<Rightarrow> bool" where
  "truthy rt (CStr s) = (s \<noteq> [])"
| "truthy rt (CInt i) = (i \<noteq> 0)"
| "truthy rt (CFloat x) = float_truth rt x"
| "truthy rt (CBool b) = b"

section \<open>Record parser: list fields\<close>

text \<open>
  The loop \<open>for sep in separators: if sep in s: return [...]\<close> followed by the final
  \<open>return [s.strip()] if s.strip() else []\<close>. On a value that is not a \<open>str\<close> the test
  \<open>sep in s\<close> raises \<open>TypeError\<close> (and \<open>s.strip()\<close> would raise \<open>AttributeError\<close>).
\<close>

fun split_on_first :: "ustr list \<Rightarrow> 'f cell \<Rightarrow> error + ustr list" where
  "split_on_first [] (CStr s) = Inr (if strip s \<noteq> [] then [strip s] else [])"
| "split_on_first [] c = Inl AttributeError"
| "split_on_first (sep # seps) (CStr s) =
     (if contains sep s
      then (case split_str s sep of
              Inl e \<Rightarrow> Inl e
            | Inr pieces \<Rightarrow> Inr (map strip (filter (\<lambda>p. strip p \<noteq> []) pieces)))
      else split_on_first seps (CStr s))"
| "split_on_first (sep # seps) c = Inl TypeError"

definition parse_skin_types :: "'f runtime \<Rightarrow> 'f cell \<Rightarrow> error + ustr list" where
  "parse_skin_types rt skin_types_str =
     (if \<not> truthy rt skin_types_str then Inr []
      else split_on_first [ascii '','', ascii '';'', ascii ''|'', [1548]] skin_types_str)"

definition parse_ingredients :: "'f runtime \<Rightarrow> 'f cell \<Rightarrow> error + ustr list" where
  "parse_ingredients rt ingredients_str =
     (if \<not> truthy rt ingredients_str then Inr []
      else split_on_first [ascii '','', ascii '';'', ascii ''|'', [1548], ascii '' | '']
             ingredients_str)"

text \<open>
  The field-list parsing rule in the words of the specification: the first delimiter of
  the list that occurs in the string is the one the string is split on; every piece is
  trimmed and empty pieces are dropped; without any delimiter the trimmed string is the
  only element, unless it is empty.
\<close>

definition spec_parse_list :: "ustr list \<Rightarrow> ustr \<Rightarrow> ustr list" where
  "spec_parse_list delims s =
     (case find (\<lambda>d. contains d s) delims of
        Some d \<Rightarrow> filter (\<lambda>p. p \<noteq> []) (map strip (split_from d [] s))
      | None \<Rightarrow> (if strip s = [] then [] else [strip s]))"

section \<open>More string operations\<close>

text \<open>\<open>sep.join(parts)\<close> and \<open>s.replace(old, new)\<close>.\<close>

fun join :: "ustr \<Rightarrow> ustr list \<Rightarrow> ustr" where
  "join sep [] = []"
| "join sep [x] = x"
| "join sep (x # y # ys) = x @ sep @ join sep (y # ys)"

definition replace :: "ustr \<Rightarrow> ustr \<Rightarrow> ustr \<Rightarrow> ustr" where
  "replace s old new =
     (if old = [] then new @ concat (map (\<lambda>c. c # new) s)
      else join new (split_from old [] s))"

section \<open>Dictionaries in insertion order\<close>

text \<open>
  A Python \<open>dict\<close> iterates its keys in the order of their first insertion, and the
  sitemap depends on that order, so the aggregate maps are association lists:
  \<open>dict_insert\<close> is \<open>d[k] = v\<close> (a new key goes to the end, an old one keeps its place)
  and \<open>dict_modify\<close> changes the value stored under a key where it is.
\<close>

type_synonym ('k, 'v) dict = "('k \<times> 'v) list"

definition dict_insert :: "('k, 'v) dict \<Rightarrow> 'k \<Rightarrow> 'v \<Rightarrow> ('k, 'v) dict" where
  "dict_insert d k v =
     (if map_of d k = None then d @ [(k, v)]
      else map (\<lambda>(k', v'). if k' = k then (k', v) else (k', v')) d)"

definition dict_modify :: "('k, 'v) dict \<Rightarrow> 'k \<Rightarrow> ('v \<Rightarrow> 'v) \<Rightarrow> ('k, 'v) dict" where
  "dict_modify d k f = map (\<lambda>(k', v'). if k' = k then (k', f v') else (k', v')) d"

section \<open>JSON pages: brand and category aggregates, sitemap\<close>

text \<open>
  The products the JSON generators receive are dictionaries of arbitrary JSON-like
  values. \<open>truth\<close> is Python's truth value of such a value.
\<close>

datatype 'f pyval = VNone | VBool bool | VInt int | VFloat 'f | VStr ustr
  | VList "'f pyval list" | VDict "(ustr \<times> 'f pyval) list"

type_synonym 'f pdict = "string \<rightharpoonup> 'f pyval"

fun truth :: "'f runtime \<Rightarrow> 'f pyval \<Rightarrow> bool" where
  "truth rt VNone = False"
| "truth rt (VBool b) = b"
| "truth rt (VInt i) = (i \<noteq> 0)"
| "truth rt (VFloat x) = float_truth rt x"
| "truth rt (VStr s) = (s \<noteq> [])"
| "truth rt (VList xs) = (xs \<noteq> [])"
| "truth rt (VDict kvs) = (kvs \<noteq> [])"

text \<open>\<open>product.get(key)\<close> and \<open>product.get(key, default)\<close>.\<close>

definition get :: "'f pdict \<Rightarrow> string \<Rightarrow> 'f pyval" where
  "get product key = (case product key of None \<Rightarrow> VNone | Some v \<Rightarrow> v)"

definition get_default :: "'f pdict \<Rightarrow> string \<Rightarrow> 'f pyval \<Rightarrow> 'f pyval" where
  "get_default product key dflt = (case product key of None \<Rightarrow> dflt | Some v \<Rightarrow> v)"

text \<open>
  The key of an aggregate is used in \<open>key not in pages\<close>, which raises \<open>TypeError\<close> on
  an unhashable value (a list or a dictionary), and then, the first time it is seen, in
  \<open>key.lower()\<close>, which raises \<open>AttributeError\<close> on anything but a \<open>str\<close>. A value that
  is not a \<open>str\<close> is never stored as a key, so it is always seen for the first time.
\<close>

fun as_key :: "'f pyval \<Rightarrow> error + ustr" where
  "as_key (VStr s) = Inr s"
| "as_key (VList xs) = Inl TypeError"
| "as_key (VDict kvs) = Inl TypeError"
| "as_key v = Inl AttributeError"

text \<open>\<open>isinstance(v, str)\<close>\<close>

fun is_text :: "'f pyval \<Rightarrow> bool" where
  "is_text (VStr s) = True"
| "is_text v = False"

record 'i page =
  page_name :: ustr
  page_slug :: ustr
  page_products :: "'i list"
  page_description :: ustr
  page_meta :: "(string \<times> ustr) list"

text \<open>
  One pass of \<open>for product in products\<close> over an aggregate map: the key of the product is
  computed, its page is created if the key is new, and the item of the product is
  appended to the products of the page. An exception leaves the loop.
\<close>

definition add_to_pages ::
  "('p \<Rightarrow> error + ustr) \<Rightarrow> (ustr \<Rightarrow> 'i page) \<Rightarrow> ('p \<Rightarrow> error + 'i) \<Rightarrow>
   (ustr, 'i page) dict \<Rightarrow> 'p \<Rightarrow> error + (ustr, 'i page) dict" where
  "add_to_pages key_of new_page item_of pages product =
     (case key_of product of
        Inl e \<Rightarrow> Inl e
      | Inr key \<Rightarrow>
          (let pages' = (if map_of pages key = None then dict_insert pages key (new_page key)
                         else pages)
           in case item_of product of
                Inl e \<Rightarrow> Inl e
              | Inr item \<Rightarrow>
                  Inr (dict_modify pages' key
                        (\<lambda>pg. pg\<lparr>page_products := page_products pg @ [item]\<rparr>))))"

fun organize ::
  "('p \<Rightarrow> error + ustr) \<Rightarrow> (ustr \<Rightarrow> 'i page) \<Rightarrow> ('p \<Rightarrow> error + 'i) \<Rightarrow>
   (ustr, 'i page) dict \<Rightarrow> 'p list \<Rightarrow> error + (ustr, 'i page) dict" where
  "organize key_of new_page item_of pages [] = Inr pages"
| "organize key_of new_page item_of pages (product # products) =
     (case add_to_pages key_of new_page item_of pages product of
        Inl e \<Rightarrow> Inl e
      | Inr pages' \<Rightarrow> organize key_of new_page item_of pages' products)"

subsection \<open>The sitemap block (the same text in \<open>main.py\<close> and in the developer agent)\<close>

record sitemap_entry =
  url :: ustr
  changefreq :: ustr
  priority :: ustr

definition sitemap_head :: "sitemap_entry list" where
  "sitemap_head =
     [\<lparr>url = ascii ''/'', changefreq = ascii ''daily'', priority = ascii ''1.0''\<rparr>,
      \<lparr>url = ascii ''/products'', changefreq = ascii ''daily'', priority = ascii ''0.9''\<rparr>,
      \<lparr>url = ascii ''/brands'', changefreq = ascii ''weekly'', priority = ascii ''0.8''\<rparr>,
      \<lparr>url = ascii ''/categories'', changefreq = ascii ''weekly'', priority = ascii ''0.8''\<rparr>]"

text \<open>
  \<open>for key in pages.keys(): sitemap.append({"url": f"{prefix}{pages[key]['slug']}", ...})\<close>;
  the subscript \<open>pages[key]\<close> raises \<open>KeyError\<close> on a key the map does not have.
\<close>

fun append_entries ::
  "ustr \<Rightarrow> (ustr, 'i page) dict \<Rightarrow> ustr list \<Rightarrow> sitemap_entry list \<Rightarrow> error + sitemap_entry list"
  where
  "append_entries prefix pages [] sitemap = Inr sitemap"
| "append_entries prefix pages (key # keys) sitemap =
     (case map_of pages key of
        None \<Rightarrow> Inl KeyError
      | Some pg \<Rightarrow>
          append_entries prefix pages keys
            (sitemap @ [\<lparr>url = prefix @ page_slug pg, changefreq = ascii ''weekly'',
                         priority = ascii ''0.7''\<rparr>]))"

definition build_sitemap ::
  "(ustr, 'i page) dict \<Rightarrow> (ustr, 'j page) dict \<Rightarrow> error + sitemap_entry list" where
  "build_sitemap brands categories =
     (case append_entries (ascii ''/brand/'') brands (map fst brands) sitemap_head of
        Inl e \<Rightarrow> Inl e
      | Inr sitemap \<Rightarrow>
          append_entries (ascii ''/category/'') categories (map fst categories) sitemap)"

subsection \<open>\<open>generate_json_pages\<close> of \<open>main.py\<close>\<close>

text \<open>\<open>product.get('Meta: _livora_brand_name') or product.get('Brand', 'Unknown')\<close>\<close>

definition main_brand :: "'f runtime \<Rightarrow> 'f pdict \<Rightarrow> 'f pyval" where
  "main_brand rt product =
     (if truth rt (get product ''Meta: _livora_brand_name'')
      then get product ''Meta: _livora_brand_name''
      else get_default product ''Brand'' (VStr (ascii ''Unknown'')))"

text \<open>The apostrophe is the code point 39.\<close>

definition main_brand_page :: "'f runtime \<Rightarrow> ustr \<Rightarrow> 'i page" where
  "main_brand_page rt brand =
     \<lparr> page_name = brand,
       page_slug = replace (replace (str_lower rt brand) (ascii '' '') (ascii ''-'')) [39] [],
       page_products = [],
       page_description = ascii ''Premium '' @ brand @ ascii '' products at Livora'',
       page_meta =
         [(''title'', brand @ ascii '' Products - Livora''),
          (''description'',
             ascii ''Shop authentic '' @ brand @ ascii '' products with best price guarantee''),
          (''keywords'',
             brand @ ascii '', '' @ str_lower rt brand @ ascii '' products, buy '' @ brand)] \<rparr>"

text \<open>
  \<open>product.get(key, '').split(sep) if product.get(key) else []\<close>: a true value that is
  not a \<open>str\<close> has no \<open>split\<close>.
\<close>

definition split_field :: "'f runtime \<Rightarrow> 'f pdict \<Rightarrow> string \<Rightarrow> ustr \<Rightarrow> error + 'f pyval" where
  "split_field rt product key sep =
     (if truth rt (get product key)
      then (case get_default product key (VStr []) of
              VStr s \<Rightarrow> (case split_str s sep of
                           Inl e \<Rightarrow> Inl e
                         | Inr pieces \<Rightarrow> Inr (VList (map VStr pieces)))
            | _ \<Rightarrow> Inl AttributeError)
      else Inr (VList []))"

definition main_brand_item :: "'f runtime \<Rightarrow> 'f pdict \<Rightarrow> error + 'f pyval" where
  "main_brand_item rt product =
     (case split_field rt product ''Meta: _livora_skin_type'' (ascii '','') of
        Inl e \<Rightarrow> Inl e
      | Inr skin_types \<Rightarrow>
          (case split_field rt product ''Meta: ingredients'' (ascii ''|'') of
             Inl e \<Rightarrow> Inl e
           | Inr ingredients \<Rightarrow>
               Inr (VDict
                 [(ascii ''id'', get product ''ID''),
                  (ascii ''name'', get product ''Name''),
                  (ascii ''sku'', get product ''SKU''),
                  (ascii ''price'', get product ''Regular price''),
                  (ascii ''description'', get product ''Short description''),
                  (ascii ''image'', get product ''Images''),
                  (ascii ''category'', get product ''Categories''),
                  (ascii ''skin_types'', skin_types),
                  (ascii ''ingredients'', ingredients)])))"

definition main_category_page :: "'f runtime \<Rightarrow> ustr \<Rightarrow> 'i page" where
  "main_category_page rt category =
     \<lparr> page_name = category,
       page_slug = replace (str_lower rt category) (ascii '' '') (ascii ''-''),
       page_products = [],
       page_description = ascii ''Browse '' @ category @ ascii '' products at Livora'',
       page_meta =
         [(''title'', category @ ascii '' Products - Livora''),
          (''description'',
             ascii ''Shop premium '' @ category @ ascii '' products with authentic brands''),
          (''keywords'',
             category @ ascii '', '' @ str_lower rt category @ ascii '' products, buy ''
               @ category)] \<rparr>"

definition main_category_item :: "'f runtime \<Rightarrow> 'f pdict \<Rightarrow> error + 'f pyval" where
  "main_category_item rt product =
     Inr (VDict
       [(ascii ''id'', get product ''ID''),
        (ascii ''name'', get product ''Name''),
        (ascii ''sku'', get product ''SKU''),
        (ascii ''price'', get product ''Regular price''),
        (ascii ''brand'',
           (if truth rt (get product ''Meta: _livora_brand_name'')
            then get product ''Meta: _livora_brand_name'' else get product ''Brand'')),
        (ascii ''image'', get product ''Images''),
        (ascii ''description'', get product ''Short description'')])"

record ('f, 'i) json_pages =
  jp_products :: "'f pdict list"
  jp_brands :: "(ustr, 'i page) dict"
  jp_categories :: "(ustr, 'i page) dict"
  jp_sitemap :: "sitemap_entry list"

text \<open>
  The whole endpoint, without the files it writes, its time stamp and the constant
  \<open>pages\<close> block of static texts; \<open>Inl\<close> is the exception the endpoint turns into an
  HTTP 500 answer.
\<close>

definition generate_json_pages ::
  "'f runtime \<Rightarrow> 'f pdict list \<Rightarrow> error + ('f, 'f pyval) json_pages" where
  "generate_json_pages rt products =
     (case organize (\<lambda>p. as_key (main_brand rt p)) (main_brand_page rt) (main_brand_item rt)
             [] products of
        Inl e \<Rightarrow> Inl e
      | Inr brands \<Rightarrow>
          (case organize (\<lambda>p. as_key (get_default p ''Categories'' (VStr (ascii ''Unknown''))))
                  (main_category_page rt) (main_category_item rt) [] products of
             Inl e \<Rightarrow> Inl e
           | Inr categories \<Rightarrow>
               (case build_sitemap brands categories of
                  Inl e \<Rightarrow> Inl e
                | Inr sitemap \<Rightarrow>
                    Inr \<lparr> jp_products = products, jp_brands = brands,
                          jp_categories = categories, jp_sitemap = sitemap \<rparr>)))"

subsection \<open>\<open>DeveloperAgent._generate_json_pages\<close>\<close>

definition agent_brand_page :: "'f runtime \<Rightarrow> ustr \<Rightarrow> 'i page" where
  "agent_brand_page rt brand =
     \<lparr> page_name = brand,
       page_slug = replace (str_lower rt brand) (ascii '' '') (ascii ''-''),
       page_products = [],
       page_description = ascii ''Products from '' @ brand,
       page_meta =
         [(''title'', brand @ ascii '' Products - Livora''),
          (''description'', ascii ''Browse '' @ brand @ ascii '' products at Livora'')] \<rparr>"

definition agent_category_page :: "'f runtime \<Rightarrow> ustr \<Rightarrow> 'i page" where
  "agent_category_page rt category =
     \<lparr> page_name = category,
       page_slug = replace (str_lower rt category) (ascii '' '') (ascii ''-''),
       page_products = [],
       page_description = ascii ''Browse '' @ category @ ascii '' products'',
       page_meta =
         [(''title'', category @ ascii '' Products - Livora''),
          (''description'', ascii ''Browse '' @ category @ ascii '' products at Livora'')] \<rparr>"

definition agent_generate_json_pages ::
  "'f runtime \<Rightarrow> 'f pdict list \<Rightarrow> error + ('f, 'f pdict) json_pages" where
  "agent_generate_json_pages rt products =
     (case organize (\<lambda>p. as_key (get_default p ''brand'' (VStr (ascii ''Unknown''))))
             (agent_brand_page rt) Inr [] products of
        Inl e \<Rightarrow> Inl e
      | Inr brands \<Rightarrow>
          (case organize (\<lambda>p. as_key (get_default p ''category'' (VStr (ascii ''Unknown''))))
                  (agent_category_page rt) Inr [] products of
             Inl e \<Rightarrow> Inl e
           | Inr categories \<Rightarrow>
               (case build_sitemap brands categories of
                  Inl e \<Rightarrow> Inl e
                | Inr sitemap \<Rightarrow>
                    Inr \<lparr> jp_products = products, jp_brands = brands,
                          jp_categories = categories, jp_sitemap = sitemap \<rparr>)))"

section \<open>The aggregation rule of the specification\<close>

text \<open>
  \<open>first_seen\<close> keeps the first occurrence of every element, in order. The aggregation
  the specification describes maps every key, in first-seen order, to the products that
  have this key, in input order.
\<close>

fun first_seen :: "'a list \<Rightarrow> 'a list" where
  "first_seen [] = []"
| "first_seen (x # xs) = x # filter (\<lambda>y. y \<noteq> x) (first_seen xs)"

definition spec_aggregate :: "('p \<Rightarrow> 'k) \<Rightarrow> 'p list \<Rightarrow> ('k \<times> 'p list) list" where
  "spec_aggregate key ps = map (\<lambda>k. (k, filter (\<lambda>p. key p = k) ps)) (first_seen (map key ps))"

text \<open>
  The look-up-or-create loop all aggregators of the code share, on bare lists of
  products: the proofs compare each aggregator with it.
\<close>

definition group_step :: "('p \<Rightarrow> 'k) \<Rightarrow> ('k, 'p list) dict \<Rightarrow> 'p \<Rightarrow> ('k, 'p list) dict" where
  "group_step key groups p =
     dict_modify (if map_of groups (key p) = None then dict_insert groups (key p) [] else groups)
       (key p) (\<lambda>ps. ps @ [p])"

fun group_loop :: "('p \<Rightarrow> 'k) \<Rightarrow> ('k, 'p list) dict \<Rightarrow> 'p list \<Rightarrow> ('k, 'p list) dict" where
  "group_loop key groups [] = groups"
| "group_loop key groups (p # ps) = group_loop key (group_step key groups p) ps"

section \<open>Products\<close>

text \<open>
  The dataclass \<open>Product\<close>; its field \<open>id\<close> is \<open>product_id\<close> here. The three enrichment
  fields are \<open>None\<close> until they are set; \<open>seo_content\<close> is a dictionary of arbitrary values.
\<close>

record 'f product =
  product_id :: ustr
  name :: ustr
  brand :: ustr
  category :: ustr
  price :: 'f
  description :: ustr
  sku :: ustr
  skin_types :: "ustr list"
  ingredients :: "ustr list"
  usage :: ustr
  image_urls :: "ustr list option"
  seo_content :: "(string, 'f pyval) dict option"
  enhanced_description :: "ustr option"

subsection \<open>\<open>BeautyProductManager.generate_brand_pages\<close>\<close>

text \<open>
  \<open>bd_categories\<close> is the \<open>set\<close> the loop fills; the final \<open>list(...)\<close> of it has the
  iteration order of the set, which the model leaves open. \<open>bd_about\<close>, \<open>bd_philosophy\<close>
  and \<open>bd_products_count\<close> are the entries of the nested \<open>content\<close> dictionary.
\<close>

record 'f brand_data =
  bd_name :: ustr
  bd_products :: "'f product list"
  bd_categories :: "ustr set"
  bd_about :: ustr
  bd_philosophy :: ustr
  bd_products_count :: nat

fun brand_pages_loop ::
  "(ustr, 'f brand_data) dict \<Rightarrow> 'f product list \<Rightarrow> (ustr, 'f brand_data) dict" where
  "brand_pages_loop brands [] = brands"
| "brand_pages_loop brands (product # products) =
     (let brands1 =
            (if map_of brands (brand product) = None
             then dict_insert brands (brand product)
                    \<lparr> bd_name = brand product, bd_products = [], bd_categories = {},
                      bd_about = ascii ''About '' @ brand product,
                      bd_philosophy = brand product @ ascii '' philosophy'',
                      bd_products_count = 0 \<rparr>
             else brands);
          brands2 = dict_modify brands1 (brand product)
                      (\<lambda>bd. bd\<lparr>bd_products := bd_products bd @ [product]\<rparr>);
          brands3 = dict_modify brands2 (brand product)
                      (\<lambda>bd. bd\<lparr>bd_categories := insert (category product) (bd_categories bd)\<rparr>)
      in brand_pages_loop brands3 products)"

definition generate_brand_pages :: "'f product list \<Rightarrow> (ustr, 'f brand_data) dict" where
  "generate_brand_pages products =
     map (\<lambda>(k, bd). (k, bd\<lparr>bd_products_count := length (bd_products bd)\<rparr>))
       (brand_pages_loop [] products)"

section \<open>Exporter: \<open>BeautyProductManager.export_to_csv\<close>\<close>

text \<open>
  The rows handed to \<open>csv.writer\<close>, column by column. The three SEO columns hold whatever
  \<open>seo_content\<close> holds under the key, or the empty string.
\<close>

record 'f woo_row =
  w_ID :: nat
  w_Type :: ustr
  w_SKU :: ustr
  w_Name :: ustr
  w_Published :: int
  w_Is_featured :: int
  w_Visibility_in_catalog :: ustr
  w_Short_description :: ustr
  w_Description :: ustr
  w_Tax_status :: ustr
  w_In_stock :: int
  w_Stock :: int
  w_Regular_price :: 'f
  w_Categories :: ustr
  w_Tags :: ustr
  w_Images :: ustr
  w_wpseo_title :: "'f pyval"
  w_wpseo_metadesc :: "'f pyval"
  w_wpseo_focuskw :: "'f pyval"

record 'f enhanced_row =
  e_ID :: nat
  e_SKU :: ustr
  e_Name :: ustr
  e_Brand :: ustr
  e_Category :: ustr
  e_Price :: 'f
  e_Original_Description :: ustr
  e_Enhanced_Description :: ustr
  e_SEO_Title :: "'f pyval"
  e_SEO_Description :: "'f pyval"
  e_Keywords :: "'f pyval"
  e_Image_URLs :: ustr

datatype 'f csv_row = Woo "'f woo_row" | Enhanced "'f enhanced_row"

text \<open>\<open>product.seo_content.get(key, '') if product.seo_content else ''\<close>\<close>

definition seo_get :: "'f product \<Rightarrow> string \<Rightarrow> 'f pyval" where
  "seo_get product key =
     (case seo_content product of
        None \<Rightarrow> VStr []
      | Some seo \<Rightarrow>
          (if seo = [] then VStr []
           else (case map_of seo key of None \<Rightarrow> VStr [] | Some v \<Rightarrow> v)))"

text \<open>
  \<open>product.seo_content.get('keywords', '').split(',')[0] if product.seo_content else ''\<close>:
  only a \<open>str\<close> has \<open>split\<close>, and its result is never empty.
\<close>

definition focus_keyword :: "'f product \<Rightarrow> error + 'f pyval" where
  "focus_keyword product =
     (case seo_content product of
        None \<Rightarrow> Inr (VStr [])
      | Some seo \<Rightarrow>
          (if seo = [] then Inr (VStr [])
           else (case seo_get product ''keywords'' of
                   VStr s \<Rightarrow> (case split_from (ascii '','') [] s of
                                [] \<Rightarrow> Inl IndexError
                              | first # rest \<Rightarrow> Inr (VStr first))
                 | _ \<Rightarrow> Inl AttributeError)))"

text \<open>\<open>x or y\<close> on an optional text and on an optional list.\<close>

definition or_text :: "ustr option \<Rightarrow> ustr \<Rightarrow> ustr" where
  "or_text x y = (case x of None \<Rightarrow> y | Some s \<Rightarrow> if s = [] then y else s)"

definition or_list :: "'a list option \<Rightarrow> 'a list \<Rightarrow> 'a list" where
  "or_list x y = (case x of None \<Rightarrow> y | Some xs \<Rightarrow> if xs = [] then y else xs)"

definition woocommerce_row :: "nat \<Rightarrow> 'f product \<Rightarrow> error + 'f csv_row" where
  "woocommerce_row i product =
     (case focus_keyword product of
        Inl e \<Rightarrow> Inl e
      | Inr focuskw \<Rightarrow>
          Inr (Woo
            \<lparr> w_ID = i,
              w_Type = ascii ''simple'',
              w_SKU = sku product,
              w_Name = name product,
              w_Published = 1,
              w_Is_featured = 0,
              w_Visibility_in_catalog = ascii ''visible'',
              w_Short_description = take 200 (description product),
              w_Description = or_text (enhanced_description product) (description product),
              w_Tax_status = ascii ''taxable'',
              w_In_stock = 1,
              w_Stock = 10,
              w_Regular_price = price product,
              w_Categories = category product,
              w_Tags = [],
              w_Images = join (ascii '';'') (or_list (image_urls product) []),
              w_wpseo_title = seo_get product ''meta_title'',
              w_wpseo_metadesc = seo_get product ''meta_description'',
              w_wpseo_focuskw = focuskw \<rparr>))"

definition enhanced_row :: "nat \<Rightarrow> 'f product \<Rightarrow> error + 'f csv_row" where
  "enhanced_row i product =
     Inr (Enhanced
       \<lparr> e_ID = i,
         e_SKU = sku product,
         e_Name = name product,
         e_Brand = brand product,
         e_Category = category product,
         e_Price = price product,
         e_Original_Description = description product,
         e_Enhanced_Description = or_text (enhanced_description product) [],
         e_SEO_Title = seo_get product ''meta_title'',
         e_SEO_Description = seo_get product ''meta_description'',
         e_Keywords = seo_get product ''keywords'',
         e_Image_URLs = join (ascii '';'') (or_list (image_urls product) []) \<rparr>)"

text \<open>
  \<open>for i, product in enumerate(products, 1): ... writer.writerow(row)\<close>: the rows written
  so far are \<open>written\<close>; an exception leaves the loop.
\<close>

fun write_rows ::
  "(nat \<Rightarrow> 'f product \<Rightarrow> error + 'f csv_row) \<Rightarrow> nat \<Rightarrow> 'f csv_row list \<Rightarrow> 'f product list
   \<Rightarrow> error + 'f csv_row list" where
  "write_rows make_row i written [] = Inr written"
| "write_rows make_row i written (product # products) =
     (case make_row i product of
        Inl e \<Rightarrow> Inl e
      | Inr row \<Rightarrow> write_rows make_row (Suc i) (written @ [row]) products)"

text \<open>
  The result is the list of data rows of the file that is written (the header row and the
  file name with its time stamp are left out). With any other \<open>format\<close> no branch assigns
  \<open>filename\<close> and the final \<open>return filename\<close> raises \<open>UnboundLocalError\<close>.
\<close>

datatype export_error = RowError error | UnboundLocalError

definition export_to_csv :: "'f product list \<Rightarrow> ustr \<Rightarrow> export_error + 'f csv_row list" where
  "export_to_csv products format =
     (if format = ascii ''woocommerce''
      then (case write_rows woocommerce_row 1 [] products of
              Inl e \<Rightarrow> Inl (RowError e) | Inr rows \<Rightarrow> Inr rows)
      else if format = ascii ''enhanced''
      then (case write_rows enhanced_row 1 [] products of
              Inl e \<Rightarrow> Inl (RowError e) | Inr rows \<Rightarrow> Inr rows)
      else Inl UnboundLocalError)"

section \<open>Record parser: \<open>BeautyProductManager.load_csv\<close>\<close>

text \<open>
  A row of the data frame maps the column names of the file to cells;
  \<open>row.get(key, default)\<close> is the cell of a column that exists and the default otherwise.
  Column names are only compared with the ASCII names the code asks for.
\<close>

type_synonym 'f row = "string \<rightharpoonup> 'f cell"

definition row_get :: "'f row \<Rightarrow> string \<Rightarrow> 'f cell \<Rightarrow> 'f cell" where
  "row_get row key dflt = (case row key of None \<Rightarrow> dflt | Some v \<Rightarrow> v)"

text \<open>\<open>str(x)\<close> and \<open>float(x)\<close> of a cell.\<close>

fun digits :: "nat \<Rightarrow> ustr" where
  "digits n = (if n < 10 then [48 + n] else digits (n div 10) @ [48 + n mod 10])"

definition str_of_int :: "int \<Rightarrow> ustr" where
  "str_of_int i = (if i < 0 then ascii ''-'' @ digits (nat (- i)) else digits (nat i))"

fun py_str :: "'f runtime \<Rightarrow> 'f cell \<Rightarrow> ustr" where
  "py_str rt (CStr s) = s"
| "py_str rt (CInt i) = str_of_int i"
| "py_str rt (CFloat x) = str_of_float rt x"
| "py_str rt (CBool b) = (if b then ascii ''True'' else ascii ''False'')"

fun py_float :: "'f runtime \<Rightarrow> 'f cell \<Rightarrow> error + 'f" where
  "py_float rt (CStr s) = (case float_of_str rt s of None \<Rightarrow> Inl ValueError | Some x \<Rightarrow> Inr x)"
| "py_float rt (CInt i) = Inr (float_of_int rt i)"
| "py_float rt (CFloat x) = Inr x"
| "py_float rt (CBool b) = Inr (float_of_int rt (if b then 1 else 0))"

text \<open>
  The call \<open>Product(id=..., ..., usage=...)\<close> of the loop body. Its arguments are evaluated
  in order; \<open>float\<close>, \<open>parse_skin_types\<close> and \<open>parse_ingredients\<close> are the ones that can
  raise.
\<close>

definition make_product :: "'f runtime \<Rightarrow> 'f row \<Rightarrow> error + 'f product" where
  "make_product rt row =
     (case py_float rt (row_get row ''Regular price'' (CInt 0)) of
        Inl e \<Rightarrow> Inl e
      | Inr the_price \<Rightarrow>
     (case parse_skin_types rt (row_get row ''Meta: _livora_skin_type'' (CStr [])) of
        Inl e \<Rightarrow> Inl e
      | Inr the_skin_types \<Rightarrow>
     (case parse_ingredients rt (row_get row ''Meta: ingredients'' (CStr [])) of
        Inl e \<Rightarrow> Inl e
      | Inr the_ingredients \<Rightarrow>
          Inr \<lparr> product_id = py_str rt (row_get row ''ID'' (CStr [])),
                name = py_str rt (row_get row ''Name'' (CStr [])),
                brand = py_str rt (row_get row ''Meta: _livora_brand_name''
                                    (row_get row ''Brand'' (CStr []))),
                category = py_str rt (row_get row ''Categories'' (CStr [])),
                price = the_price,
                description = py_str rt (row_get row ''Description'' (CStr [])),
                sku = py_str rt (row_get row ''SKU'' (CStr [])),
                skin_types = the_skin_types,
                ingredients = the_ingredients,
                usage = py_str rt (row_get row ''Meta: usage_instructions'' (CStr [])),
                image_urls = None,
                seo_content = None,
                enhanced_description = None \<rparr>)))"

fun load_rows :: "'f runtime \<Rightarrow> 'f product list \<Rightarrow> 'f row list \<Rightarrow> error + 'f product list" where
  "load_rows rt products [] = Inr products"
| "load_rows rt products (row # rows) =
     (case make_product rt row of
        Inl e \<Rightarrow> Inl e
      | Inr product \<Rightarrow> load_rows rt (products @ [product]) rows)"

text \<open>
  \<open>load_csv\<close> is applied to what \<open>pd.read_csv\<close> made of the file: \<open>Inl\<close> when it raised
  (no file, no columns, undecodable bytes), the rows of the data frame otherwise. The
  \<open>except Exception\<close> clause turns every exception, of \<open>read_csv\<close> or of a row, into the
  result \<open>[]\<close>. The log messages and the assignment to \<open>self.products\<close> are not part of
  the returned value.
\<close>

definition load_csv :: "'f runtime \<Rightarrow> error + 'f row list \<Rightarrow> 'f product list" where
  "load_csv rt df =
     (case df of
        Inl e \<Rightarrow> []
      | Inr rows \<Rightarrow> (case load_rows rt [] rows of Inl e \<Rightarrow> [] | Inr products \<Rightarrow> products))"

text \<open>
  \<open>run_full_pipeline\<close> up to its first return; \<open>continue\<close> stands for the rest of the
  pipeline (enrichment, brand pages, exports, competitor data, time stamp).
\<close>

definition run_full_pipeline ::
  "'f runtime \<Rightarrow> ('f product list \<Rightarrow> 'r) \<Rightarrow> error + 'f row list \<Rightarrow> ustr + 'r" where
  "run_full_pipeline rt continue df =
     (let products = load_csv rt df
      in if products = [] then Inl (ascii ''No products loaded'') else Inr (continue products))"

section \<open>A runtime for evaluating examples\<close>

text \<open>
  Every general theorem below holds for an arbitrary runtime. To evaluate the model on a
  concrete input a runtime has to be fixed; \<open>example_runtime\<close> is a small one whose
  floats are the integers and NaN. It agrees with CPython on the values the examples of
  this theory use: \<open>float\<close> of a text reads an optional sign and ASCII digits (or
  \<open>nan\<close>) between optional white space and rejects any other text used here,
  \<open>str\<close> of an integral float below \<open>10\<^sup>1\<^sup>6\<close> is its digits followed by \<open>.0\<close>,
  and \<open>lower\<close> maps the letters A to Z. Fractions, exponents, infinities, digits and
  capital letters outside ASCII are beyond it.
\<close>

datatype pyfloat = Float int | NaN

fun decimal :: "nat \<Rightarrow> ustr \<Rightarrow> nat option" where
  "decimal acc [] = Some acc"
| "decimal acc (c # cs) =
     (if 48 \<le> c \<and> c \<le> 57 then decimal (10 * acc + (c - 48)) cs else None)"

definition ascii_lower :: "ustr \<Rightarrow> ustr" where
  "ascii_lower = map (\<lambda>c. if 65 \<le> c \<and> c \<le> 90 then c + 32 else c)"

definition example_float_of_str :: "ustr \<Rightarrow> pyfloat option" where
  "example_float_of_str s =
     (let t = strip s;
          negative = (take 1 t = ascii ''-'');
          body = (if take 1 t = ascii ''-'' \<or> take 1 t = ascii ''+'' then drop 1 t else t)
      in if ascii_lower body = ascii ''nan'' then Some NaN
         else if body = [] then None
         else (case decimal 0 body of
                 None \<Rightarrow> None
               | Some n \<Rightarrow> Some (Float (if negative then - int n else int n))))"

definition example_runtime :: "pyfloat runtime" where
  "example_runtime =
     \<lparr> float_of_str = example_float_of_str,
       float_of_int = Float,
       str_of_float = (\<lambda>x. case x of Float i \<Rightarrow> str_of_int i @ ascii ''.0'' | NaN \<Rightarrow> ascii ''nan''),
       float_truth = (\<lambda>x. case x of Float i \<Rightarrow> i \<noteq> 0 | NaN \<Rightarrow> True),
       str_lower = ascii_lower \<rparr>"

text \<open>Example rows of a data frame, used to evaluate the parser.\<close>

definition soap_row :: "pyfloat row" where
  "soap_row =
     [''ID'' \<mapsto> CInt 7, ''Name'' \<mapsto> CStr (ascii ''Soap''), ''Brand'' \<mapsto> CStr (ascii ''Acme''),
      ''Regular price'' \<mapsto> CStr (ascii ''12'')]"

definition bad_price_row :: "pyfloat row" where
  "bad_price_row =
     [''ID'' \<mapsto> CInt 8, ''Name'' \<mapsto> CStr (ascii ''Balm''), ''Brand'' \<mapsto> CStr (ascii ''Acme''),
      ''Regular price'' \<mapsto> CStr (ascii ''abc'')]"

definition empty_price_row :: "pyfloat row" where
  "empty_price_row =
     [''ID'' \<mapsto> CInt 9, ''Name'' \<mapsto> CStr (ascii ''Mask''), ''Regular price'' \<mapsto> CFloat NaN]"

definition name_only_row :: "pyfloat row" where
  "name_only_row = [''Name'' \<mapsto> CStr (ascii ''Soap'')]"

text \<open>
  The slug of the specification, in its words:
  \<open>lower(name).replace(" ", "-").replace("'", "")\<close>.
\<close>

definition spec_slug :: "'f runtime \<Rightarrow> ustr \<Rightarrow> ustr" where
  "spec_slug rt n = replace (replace (str_lower rt n) (ascii '' '') (ascii ''-'')) [39] []"

text \<open>Example products, as Products and as the dictionaries the JSON generators receive.\<close>

definition acme_soap :: "pyfloat product" where
  "acme_soap =
     \<lparr> product_id = ascii ''1'', name = ascii ''Soap'', brand = ascii ''Acme'',
       category = ascii ''Skin'', price = Float 12, description = ascii ''Mild soap'',
       sku = ascii ''S1'', skin_types = [ascii ''dry''], ingredients = [], usage = [],
       image_urls = None, seo_content = None, enhanced_description = None \<rparr>"

definition zed_balm :: "pyfloat product" where
  "zed_balm = acme_soap \<lparr> product_id := ascii ''2'', name := ascii ''Balm'', brand := ascii ''Zed'' \<rparr>"

definition acme_mask :: "pyfloat product" where
  "acme_mask = acme_soap \<lparr> product_id := ascii ''3'', name := ascii ''Mask'' \<rparr>"

definition acme_soap_dict :: "pyfloat pdict" where
  "acme_soap_dict =
     [''name'' \<mapsto> VStr (ascii ''Soap''), ''brand'' \<mapsto> VStr (ascii ''Acme''),
      ''category'' \<mapsto> VStr (ascii ''Skin'')]"

definition zed_balm_dict :: "pyfloat pdict" where
  "zed_balm_dict =
     [''name'' \<mapsto> VStr (ascii ''Balm''), ''brand'' \<mapsto> VStr (ascii ''Zed''),
      ''category'' \<mapsto> VStr (ascii ''Skin'')]"

definition acme_mask_dict :: "pyfloat pdict" where
  "acme_mask_dict =
     [''name'' \<mapsto> VStr (ascii ''Mask''), ''brand'' \<mapsto> VStr (ascii ''Acme''),
      ''category'' \<mapsto> VStr (ascii ''Skin'')]"

definition example_brand_map :: "(ustr, pyfloat pdict page) dict" where
  "example_brand_map =
     [(ascii ''Acme'', agent_brand_page example_runtime (ascii ''Acme'')),
      (ascii ''Zed'', agent_brand_page example_runtime (ascii ''Zed''))]"

definition example_category_map :: "(ustr, pyfloat pdict page) dict" where
  "example_category_map = [(ascii ''Skin'', agent_category_page example_runtime (ascii ''Skin''))]"

text \<open>The brand name L'Oreal Paris with its e acute (code point 233), and a category with an
  apostrophe.\<close>

definition loreal_paris :: ustr where
  "loreal_paris = ascii ''L'Or'' @ [233] @ ascii ''al Paris''"

definition mens_care_product :: "pyfloat pdict" where
  "mens_care_product =
     [''Brand'' \<mapsto> VStr loreal_paris, ''Categories'' \<mapsto> VStr (ascii ''Men's Care'')]"

definition mens_care_agent_product :: "pyfloat pdict" where
  "mens_care_agent_product =
     [''brand'' \<mapsto> VStr loreal_paris, ''category'' \<mapsto> VStr (ascii ''Men's Care'')]"

section \<open>Properties of the string operations\<close>

lemma startswith_iff: "startswith s sep = (\<exists>post. s = sep @ post)"
  unfolding startswith_def by (metis append_eq_conv_conj)

lemma contains_iff: "contains sep s = (\<exists>pre post. s = pre @ sep @ post)"
proof (induction s)
  case Nil
  then show ?case by auto
next
  case (Cons c cs)
  have "(\<exists>pre post. c # cs = pre @ sep @ post) =
     ((\<exists>post. c # cs = sep @ post) \<or> (\<exists>pre post. cs = pre @ sep @ post))"
  proof
    assume "\<exists>pre post. c # cs = pre @ sep @ post"
    then obtain pre post where eq: "c # cs = pre @ sep @ post" by blast
    show "(\<exists>post. c # cs = sep @ post) \<or> (\<exists>pre post. cs = pre @ sep @ post)"
    proof (cases pre)
      case Nil
      with eq show ?thesis by auto
    next
      case (Cons p ps)
      with eq have "cs = ps @ sep @ post" by simp
      then show ?thesis by blast
    qed
  next
    assume "(\<exists>post. c # cs = sep @ post) \<or> (\<exists>pre post. cs = pre @ sep @ post)"
    then show "\<exists>pre post. c # cs = pre @ sep @ post"
    proof
      assume "\<exists>post. c # cs = sep @ post"
      then show ?thesis by (metis append_Nil)
    next
      assume "\<exists>pre post. cs = pre @ sep @ post"
      then show ?thesis by (metis append_Cons)
    qed
  qed
  with Cons.IH show ?case by (simp add: startswith_iff)
qed

lemma contains_mid: "contains (a @ b @ c) s \<Longrightarrow> contains b s"
  unfolding contains_iff by (metis append.assoc)

lemma padded_pipe_has_pipe: "contains (ascii '' | '') s \<Longrightarrow> contains (ascii ''|'') s"
proof -
  have "ascii '' | '' = ascii '' '' @ ascii ''|'' @ ascii '' ''"
    by (simp add: ascii_def)
  then show "contains (ascii '' | '') s \<Longrightarrow> contains (ascii ''|'') s"
    using contains_mid by metis
qed

lemma concat_split_single: "concat (split_from [d] piece s) = piece @ filter (\<lambda>c. c \<noteq> d) s"
  by (induction s arbitrary: piece) (auto simp: startswith_def)

lemma count_dropWhile: "\<not> P x \<Longrightarrow> count_list (dropWhile P s) x = count_list s x"
  by (induction s) auto

lemma count_strip: "\<not> isspace x \<Longrightarrow> count_list (strip s) x = count_list s x"
  by (simp add: strip_def count_dropWhile)

lemma count_filter_ne: "x \<noteq> d \<Longrightarrow> count_list (filter (\<lambda>c. c \<noteq> d) s) x = count_list s x"
  by (induction s) auto

lemma count_kept:
  "\<not> isspace x \<Longrightarrow>
   count_list (concat (filter (\<lambda>p. p \<noteq> []) (map strip ps))) x = count_list (concat ps) x"
proof (induction ps)
  case Nil
  then show ?case by simp
next
  case (Cons p ps)
  have "strip p = [] \<Longrightarrow> count_list p x = 0"
    using count_strip[OF Cons.prems, of p] by simp
  with Cons show ?case by (simp add: count_strip)
qed

section \<open>List-field parsing\<close>

lemma filter_map_strip:
  "map strip (filter (\<lambda>p. strip p \<noteq> []) ps) = filter (\<lambda>p. p \<noteq> []) (map strip ps)"
  by (induction ps) auto

lemma split_on_first_spec:
  "[] \<notin> set seps \<Longrightarrow> split_on_first seps (CStr s) = Inr (spec_parse_list seps s)"
  by (induction seps) (auto simp: spec_parse_list_def split_str_def filter_map_strip)

lemma parse_skin_types_spec:
  "parse_skin_types rt (CStr s)
     = Inr (spec_parse_list [ascii '','', ascii '';'', ascii ''|'', [1548]] s)"
proof (cases "s = []")
  case True
  then show ?thesis
    by (simp add: parse_skin_types_def spec_parse_list_def strip_def ascii_def)
next
  case False
  have "split_on_first [ascii '','', ascii '';'', ascii ''|'', [1548]] (CStr s)
      = Inr (spec_parse_list [ascii '','', ascii '';'', ascii ''|'', [1548]] s)"
    by (rule split_on_first_spec) (simp add: ascii_def)
  with False show ?thesis
    by (simp only: parse_skin_types_def truthy.simps not_not if_False)
qed

lemma parse_ingredients_spec:
  "parse_ingredients rt (CStr s)
     = Inr (spec_parse_list [ascii '','', ascii '';'', ascii ''|'', [1548], ascii '' | ''] s)"
proof (cases "s = []")
  case True
  then show ?thesis
    by (simp add: parse_ingredients_def spec_parse_list_def strip_def ascii_def)
next
  case False
  have "split_on_first [ascii '','', ascii '';'', ascii ''|'', [1548], ascii '' | ''] (CStr s)
      = Inr (spec_parse_list [ascii '','', ascii '';'', ascii ''|'', [1548], ascii '' | ''] s)"
    by (rule split_on_first_spec) (simp add: ascii_def)
  with False show ?thesis
    by (simp only: parse_ingredients_def truthy.simps not_not if_False)
qed

lemma semicolon_case:
  assumes "contains (ascii '';'') s" "\<not> contains (ascii '','') s"
  shows "spec_parse_list (ascii '','' # ascii '';'' # rest) s
     = filter (\<lambda>p. p \<noteq> []) (map strip (split_from (ascii '';'') [] s))"
  using assms by (simp add: spec_parse_list_def)

lemma pipes_kept:
  "count_list (concat (filter (\<lambda>p. p \<noteq> []) (map strip (split_from (ascii '';'') [] s)))) 124
     = count_list s 124"
proof -
  have sp: "\<not> isspace 124" by (simp add: isspace_def)
  have semi: "ascii '';'' = [59]" by (simp add: ascii_def)
  show ?thesis
    by (simp add: count_kept[OF sp] semi concat_split_single count_filter_ne)
qed

text \<open>
  Claim C1. On every text, \<open>parse_skin_types\<close> and \<open>parse_ingredients\<close> compute the
  field-list rule of the specification with the delimiters comma, semicolon, pipe and
  Persian comma in that order (and the padded pipe last for ingredients): the text is
  split on the first of them that occurs in it, the pieces are trimmed and the empty ones
  dropped. In particular a text with a semicolon and no comma is split at its semicolons
  only, whatever else it contains, and every pipe (code point 124) of the text is still
  in the pieces.
\<close>

theorem list_field_parsing:
  "parse_skin_types rt (CStr s)
     = Inr (spec_parse_list [ascii '','', ascii '';'', ascii ''|'', [1548]] s)
   \<and> parse_ingredients rt (CStr s)
     = Inr (spec_parse_list [ascii '','', ascii '';'', ascii ''|'', [1548], ascii '' | ''] s)
   \<and> (contains (ascii '';'') s \<and> \<not> contains (ascii '','') s \<longrightarrow>
        parse_skin_types rt (CStr s)
          = Inr (filter (\<lambda>p. p \<noteq> []) (map strip (split_from (ascii '';'') [] s)))
      \<and> parse_ingredients rt (CStr s)
          = Inr (filter (\<lambda>p. p \<noteq> []) (map strip (split_from (ascii '';'') [] s)))
      \<and> count_list
            (concat (filter (\<lambda>p. p \<noteq> []) (map strip (split_from (ascii '';'') [] s)))) 124
          = count_list s 124)"
proof -
  have "contains (ascii '';'') s \<and> \<not> contains (ascii '','') s \<longrightarrow>
      spec_parse_list [ascii '','', ascii '';'', ascii ''|'', [1548]] s
        = filter (\<lambda>p. p \<noteq> []) (map strip (split_from (ascii '';'') [] s))
    \<and> spec_parse_list [ascii '','', ascii '';'', ascii ''|'', [1548], ascii '' | ''] s
        = filter (\<lambda>p. p \<noteq> []) (map strip (split_from (ascii '';'') [] s))"
    using semicolon_case by blast
  then show ?thesis
    by (simp only: parse_skin_types_spec parse_ingredients_spec pipes_kept) simp
qed

theorem list_field_parsing_witness:
  "contains (ascii '';'') (ascii ''a;b|c'') \<and> \<not> contains (ascii '','') (ascii ''a;b|c'')
   \<and> parse_skin_types example_runtime (CStr (ascii ''a;b|c'')) = Inr [ascii ''a'', ascii ''b|c'']
   \<and> parse_ingredients example_runtime (CStr (ascii ''a;b|c'')) = Inr [ascii ''a'', ascii ''b|c'']"
proof -
  have occurs: "contains (ascii '';'') (ascii ''a;b|c'') \<and> \<not> contains (ascii '','') (ascii ''a;b|c'')"
    by (simp add: ascii_def startswith_def)
  have pieces: "filter (\<lambda>p. p \<noteq> []) (map strip (split_from (ascii '';'') [] (ascii ''a;b|c'')))
      = [ascii ''a'', ascii ''b|c'']"
    by (simp add: ascii_def startswith_def strip_def isspace_def)
  have "parse_skin_types example_runtime (CStr (ascii ''a;b|c''))
        = Inr (filter (\<lambda>p. p \<noteq> []) (map strip (split_from (ascii '';'') [] (ascii ''a;b|c''))))
      \<and> parse_ingredients example_runtime (CStr (ascii ''a;b|c''))
        = Inr (filter (\<lambda>p. p \<noteq> []) (map strip (split_from (ascii '';'') [] (ascii ''a;b|c''))))"
    using list_field_parsing [of example_runtime "ascii ''a;b|c''"] occurs by blast
  then show ?thesis
    using occurs unfolding pieces by blast
qed

text \<open>
  Claim C10. \<open>parse_ingredients\<close> returns what \<open>parse_skin_types\<close> returns, on every
  cell value and so on every text: the separator \<open>" | "\<close> is reached only when the text
  has no \<open>"|"\<close>, and then it does not occur either.
\<close>

theorem parse_ingredients_eq_parse_skin_types:
  "parse_ingredients rt c = parse_skin_types rt c"
proof (cases c)
  case (CStr s)
  show ?thesis
    using padded_pipe_has_pipe [of s]
    by (auto simp: parse_ingredients_def parse_skin_types_def CStr)
qed (simp_all add: parse_ingredients_def parse_skin_types_def)

section \<open>Record parser: rows\<close>

lemma make_product_bad_price:
  "row ''Regular price'' = Some (CStr s) \<Longrightarrow> float_of_str rt s = None \<Longrightarrow>
   make_product rt row = Inl ValueError"
  by (simp add: make_product_def row_get_def)

lemma make_product_fields:
  assumes "make_product rt row = Inr p"
  shows "py_float rt (row_get row ''Regular price'' (CInt 0)) = Inr (price p)"
    and "brand p = py_str rt (row_get row ''Meta: _livora_brand_name''
                               (row_get row ''Brand'' (CStr [])))"
proof -
  obtain a where a: "py_float rt (row_get row ''Regular price'' (CInt 0)) = Inr a"
    using assms unfolding make_product_def
    by (cases "py_float rt (row_get row ''Regular price'' (CInt 0))") simp_all
  obtain b where b: "parse_skin_types rt (row_get row ''Meta: _livora_skin_type'' (CStr [])) = Inr b"
    using assms a unfolding make_product_def
    by (cases "parse_skin_types rt (row_get row ''Meta: _livora_skin_type'' (CStr []))") simp_all
  obtain c where c: "parse_ingredients rt (row_get row ''Meta: ingredients'' (CStr [])) = Inr c"
    using assms a b unfolding make_product_def
    by (cases "parse_ingredients rt (row_get row ''Meta: ingredients'' (CStr []))") simp_all
  from assms a b c have p:
    "p = \<lparr> product_id = py_str rt (row_get row ''ID'' (CStr [])),
           name = py_str rt (row_get row ''Name'' (CStr [])),
           brand = py_str rt (row_get row ''Meta: _livora_brand_name''
                               (row_get row ''Brand'' (CStr []))),
           category = py_str rt (row_get row ''Categories'' (CStr [])),
           price = a,
           description = py_str rt (row_get row ''Description'' (CStr [])),
           sku = py_str rt (row_get row ''SKU'' (CStr [])),
           skin_types = b,
           ingredients = c,
           usage = py_str rt (row_get row ''Meta: usage_instructions'' (CStr [])),
           image_urls = None,
           seo_content = None,
           enhanced_description = None \<rparr>"
    unfolding make_product_def by simp
  show "py_float rt (row_get row ''Regular price'' (CInt 0)) = Inr (price p)"
    using a by (simp add: p)
  show "brand p = py_str rt (row_get row ''Meta: _livora_brand_name''
                              (row_get row ''Brand'' (CStr [])))"
    by (simp add: p)
qed

lemma load_rows_ok:
  "\<forall>r\<in>set rows. \<exists>p. make_product rt r = Inr p \<Longrightarrow>
   \<exists>ps. load_rows rt acc rows = Inr (acc @ ps) \<and> map Inr ps = map (make_product rt) rows"
proof (induction rows arbitrary: acc)
  case Nil
  then show ?case by simp
next
  case (Cons r rows)
  from Cons.prems obtain p where p: "make_product rt r = Inr p" by auto
  from Cons.prems have "\<forall>r\<in>set rows. \<exists>p. make_product rt r = Inr p" by simp
  from Cons.IH[OF this, of "acc @ [p]"] obtain ps where
    "load_rows rt (acc @ [p]) rows = Inr ((acc @ [p]) @ ps)"
    "map Inr ps = map (make_product rt) rows"
    by blast
  then show ?case using p by (intro exI[of _ "p # ps"]) simp
qed

lemma load_rows_fail:
  "\<exists>r\<in>set rows. \<exists>e. make_product rt r = Inl e \<Longrightarrow> \<exists>e. load_rows rt acc rows = Inl e"
proof (induction rows arbitrary: acc)
  case Nil
  then show ?case by simp
next
  case (Cons r rows)
  show ?case
  proof (cases "make_product rt r")
    case (Inl e)
    then show ?thesis by simp
  next
    case (Inr p)
    with Cons.prems have "\<exists>r\<in>set rows. \<exists>e. make_product rt r = Inl e" by auto
    from Cons.IH[OF this, of "acc @ [p]"] show ?thesis using Inr by simp
  qed
qed

lemma load_csv_ok:
  assumes "\<forall>r\<in>set rows. \<exists>p. make_product rt r = Inr p"
  shows "map Inr (load_csv rt (Inr rows)) = map (make_product rt) rows"
proof -
  from load_rows_ok[OF assms, of "[]"] obtain ps where
    "load_rows rt [] rows = Inr ps" "map Inr ps = map (make_product rt) rows" by auto
  then show ?thesis by (simp add: load_csv_def)
qed

lemma load_csv_fail:
  assumes "\<exists>r\<in>set rows. \<exists>e. make_product rt r = Inl e"
  shows "load_csv rt (Inr rows) = []"
  using load_rows_fail[OF assms, of "[]"] by (auto simp: load_csv_def)

lemma soap_product:
  "make_product example_runtime soap_row =
     Inr \<lparr> product_id = ascii ''7'', name = ascii ''Soap'', brand = ascii ''Acme'', category = [],
           price = Float 12, description = [], sku = [], skin_types = [], ingredients = [],
           usage = [], image_urls = None, seo_content = None, enhanced_description = None \<rparr>"
  by (simp add: make_product_def soap_row_def row_get_def example_runtime_def
      example_float_of_str_def parse_skin_types_def parse_ingredients_def str_of_int_def
      strip_def isspace_def ascii_lower_def ascii_def)

lemma bad_price_product: "make_product example_runtime bad_price_row = Inl ValueError"
  by (simp add: make_product_def bad_price_row_def row_get_def example_runtime_def
      example_float_of_str_def strip_def isspace_def ascii_lower_def ascii_def)

lemma empty_price_product:
  "make_product example_runtime empty_price_row =
     Inr \<lparr> product_id = ascii ''9'', name = ascii ''Mask'', brand = [], category = [],
           price = NaN, description = [], sku = [], skin_types = [], ingredients = [],
           usage = [], image_urls = None, seo_content = None, enhanced_description = None \<rparr>"
  by (simp add: make_product_def empty_price_row_def row_get_def example_runtime_def
      parse_skin_types_def parse_ingredients_def str_of_int_def ascii_def)

lemma name_only_product:
  "make_product example_runtime name_only_row =
     Inr \<lparr> product_id = [], name = ascii ''Soap'', brand = [], category = [],
           price = Float 0, description = [], sku = [], skin_types = [], ingredients = [],
           usage = [], image_urls = None, seo_content = None, enhanced_description = None \<rparr>"
  by (simp add: make_product_def name_only_row_def row_get_def example_runtime_def
      parse_skin_types_def parse_ingredients_def ascii_def)

text \<open>
  Claim C2, as stated, fails: a price text that \<open>float\<close> rejects raises \<open>ValueError\<close>, which
  ends the whole load with the empty list, and an empty price cell (the float NaN) becomes
  the price NaN, not 0.
\<close>

theorem malformed_price_counterexample:
  "make_product example_runtime bad_price_row = Inl ValueError
   \<and> load_csv example_runtime (Inr [soap_row, bad_price_row]) = []
   \<and> map price (load_csv example_runtime (Inr [empty_price_row])) = [NaN]"
  by (simp add: load_csv_def soap_product bad_price_product empty_price_product)

text \<open>
  Claim C2, amended. A row whose \<open>Regular price\<close> is a text that \<open>float\<close> rejects makes
  the construction of its Product raise \<open>ValueError\<close>, and \<open>load_csv\<close> then returns the
  empty list, whatever the rows before and after it are. A row without the column gets
  the price \<open>float(0)\<close>, and a float cell (an empty cell is the float NaN) is the price as
  it is.
\<close>

theorem malformed_price_aborts_load:
  "(row ''Regular price'' = Some (CStr s) \<and> float_of_str rt s = None \<longrightarrow>
      make_product rt row = Inl ValueError \<and> load_csv rt (Inr (before @ row # after)) = [])
   \<and> (row ''Regular price'' = None \<and> make_product rt row = Inr p \<longrightarrow>
      price p = float_of_int rt 0)
   \<and> (row ''Regular price'' = Some (CFloat x) \<and> make_product rt row = Inr p \<longrightarrow>
      price p = x)"
proof (intro conjI impI)
  assume bad: "row ''Regular price'' = Some (CStr s) \<and> float_of_str rt s = None"
  then show raises: "make_product rt row = Inl ValueError"
    by (simp add: make_product_bad_price)
  then have "\<exists>r\<in>set (before @ row # after). \<exists>e. make_product rt r = Inl e" by auto
  then show "load_csv rt (Inr (before @ row # after)) = []" by (rule load_csv_fail)
next
  assume "row ''Regular price'' = None \<and> make_product rt row = Inr p"
  then show "price p = float_of_int rt 0"
    using make_product_fields(1) [of rt row p] by (simp add: row_get_def)
next
  assume "row ''Regular price'' = Some (CFloat x) \<and> make_product rt row = Inr p"
  then show "price p = x"
    using make_product_fields(1) [of rt row p] by (simp add: row_get_def)
qed

theorem malformed_price_aborts_load_witness:
  "bad_price_row ''Regular price'' = Some (CStr (ascii ''abc''))
   \<and> float_of_str example_runtime (ascii ''abc'') = None
   \<and> make_product example_runtime bad_price_row = Inl ValueError
   \<and> load_csv example_runtime (Inr ([soap_row] @ bad_price_row # [soap_row])) = []
   \<and> name_only_row ''Regular price'' = None
   \<and> make_product example_runtime name_only_row \<noteq> Inl ValueError
   \<and> empty_price_row ''Regular price'' = Some (CFloat NaN)
   \<and> map price (load_csv example_runtime (Inr [name_only_row, empty_price_row]))
       = [float_of_int example_runtime 0, NaN]"
proof -
  have h1: "bad_price_row ''Regular price'' = Some (CStr (ascii ''abc''))
      \<and> float_of_str example_runtime (ascii ''abc'') = None"
    by (simp add: bad_price_row_def example_runtime_def example_float_of_str_def strip_def
        isspace_def ascii_lower_def ascii_def)
  have h2: "name_only_row ''Regular price'' = None" by (simp add: name_only_row_def)
  have h3: "empty_price_row ''Regular price'' = Some (CFloat NaN)"
    by (simp add: empty_price_row_def)
  note t1 = malformed_price_aborts_load
    [of bad_price_row "ascii ''abc''" example_runtime "[soap_row]" "[soap_row]"]
  note t2 = malformed_price_aborts_load [where rt = example_runtime and row = name_only_row]
  from t1 h1 have a: "make_product example_runtime bad_price_row = Inl ValueError
      \<and> load_csv example_runtime (Inr ([soap_row] @ bad_price_row # [soap_row])) = []"
    by blast
  from t2 h2 name_only_product have b: "price \<lparr> product_id = [], name = ascii ''Soap'',
      brand = [], category = [],
      price = Float 0, description = [], sku = [], skin_types = [], ingredients = [],
      usage = [], image_urls = None, seo_content = None, enhanced_description = None \<rparr>
        = float_of_int example_runtime 0"
    by blast
  have c: "map price (load_csv example_runtime (Inr [name_only_row, empty_price_row]))
       = [float_of_int example_runtime 0, NaN]"
    using b by (simp add: load_csv_def name_only_product empty_price_product)
  show ?thesis using h1 h2 h3 a c by (simp add: name_only_product)
qed

text \<open>
  Claim C3, as stated, fails: of two rows of which the second has an unreadable price no
  Product is returned.
\<close>

theorem load_length_counterexample:
  "length (load_csv example_runtime (Inr [soap_row, bad_price_row]))
     \<noteq> length [soap_row, bad_price_row]"
  by (simp add: load_csv_def soap_product bad_price_product)

text \<open>
  Claim C3, amended. When the Product of every row can be built without an exception,
  \<open>load_csv\<close> returns exactly these Products, one per row and in the order of the rows;
  when the construction raises for some row, it returns the empty list.
\<close>

theorem load_all_or_nothing:
  "((\<forall>r\<in>set rows. \<exists>p. make_product rt r = Inr p) \<longrightarrow>
      map Inr (load_csv rt (Inr rows)) = map (make_product rt) rows
      \<and> length (load_csv rt (Inr rows)) = length rows)
   \<and> ((\<exists>r\<in>set rows. \<exists>e. make_product rt r = Inl e) \<longrightarrow> load_csv rt (Inr rows) = [])"
proof (intro conjI impI)
  assume ok: "\<forall>r\<in>set rows. \<exists>p. make_product rt r = Inr p"
  then show m: "map Inr (load_csv rt (Inr rows)) = map (make_product rt) rows"
    by (rule load_csv_ok)
  from arg_cong[OF m, of length] show "length (load_csv rt (Inr rows)) = length rows"
    by simp
next
  assume "\<exists>r\<in>set rows. \<exists>e. make_product rt r = Inl e"
  then show "load_csv rt (Inr rows) = []" by (rule load_csv_fail)
qed

theorem load_all_or_nothing_witness:
  "map Inr (load_csv example_runtime (Inr [soap_row, name_only_row]))
       = map (make_product example_runtime) [soap_row, name_only_row]
   \<and> length (load_csv example_runtime (Inr [soap_row, name_only_row])) = 2
   \<and> make_product example_runtime bad_price_row = Inl ValueError
   \<and> load_csv example_runtime (Inr [soap_row, bad_price_row]) = []"
proof -
  have ok: "\<forall>r\<in>set [soap_row, name_only_row]. \<exists>p. make_product example_runtime r = Inr p"
    by (simp add: soap_product name_only_product)
  have bad: "\<exists>r\<in>set [soap_row, bad_price_row]. \<exists>e. make_product example_runtime r = Inl e"
    by (simp add: bad_price_product)
  from load_all_or_nothing [of "[soap_row, name_only_row]" example_runtime] ok
  have a: "map Inr (load_csv example_runtime (Inr [soap_row, name_only_row]))
       = map (make_product example_runtime) [soap_row, name_only_row]
     \<and> length (load_csv example_runtime (Inr [soap_row, name_only_row]))
       = length [soap_row, name_only_row]"
    by blast
  from load_all_or_nothing [of "[soap_row, bad_price_row]" example_runtime] bad
  have b: "load_csv example_runtime (Inr [soap_row, bad_price_row]) = []"
    by blast
  from a b bad_price_product show ?thesis by simp
qed

text \<open>
  Claim C4, as stated, fails: the Product of a row that has neither brand column has the
  empty brand, not \<open>Unknown\<close>.
\<close>

theorem brand_sentinel_counterexample:
  "map brand (load_csv example_runtime (Inr [name_only_row])) = [[]]
   \<and> ascii ''Unknown'' \<noteq> []"
  by (simp add: load_csv_def name_only_product ascii_def)

text \<open>
  Claim C4, amended. The brand of the Product \<open>load_csv\<close> builds from a row is \<open>str\<close> of the
  value of the column \<open>Meta: _livora_brand_name\<close> if the row has that column, else \<open>str\<close>
  of the value of the column \<open>Brand\<close> if it has that one, else the empty string. The
  sentinel \<open>Unknown\<close> belongs to \<open>generate_json_pages\<close> of \<open>main.py\<close>, whose brand is the
  value under \<open>Meta: _livora_brand_name\<close> if that value is true, else the value under
  \<open>Brand\<close> if the key is there, else \<open>Unknown\<close>.
\<close>

theorem brand_fallback:
  "(make_product rt row = Inr p \<longrightarrow>
      brand p = (case row ''Meta: _livora_brand_name'' of
                   Some v \<Rightarrow> py_str rt v
                 | None \<Rightarrow> (case row ''Brand'' of Some v \<Rightarrow> py_str rt v | None \<Rightarrow> [])))
   \<and> main_brand rt product =
       (case product ''Meta: _livora_brand_name'' of
          Some v \<Rightarrow> if truth rt v then v
                    else (case product ''Brand'' of
                            Some b \<Rightarrow> b | None \<Rightarrow> VStr (ascii ''Unknown''))
        | None \<Rightarrow> (case product ''Brand'' of Some b \<Rightarrow> b | None \<Rightarrow> VStr (ascii ''Unknown'')))"
proof (intro conjI impI)
  assume "make_product rt row = Inr p"
  from make_product_fields(2) [OF this]
  show "brand p = (case row ''Meta: _livora_brand_name'' of
                   Some v \<Rightarrow> py_str rt v
                 | None \<Rightarrow> (case row ''Brand'' of Some v \<Rightarrow> py_str rt v | None \<Rightarrow> []))"
    by (simp add: row_get_def split: option.splits)
next
  show "main_brand rt product =
       (case product ''Meta: _livora_brand_name'' of
          Some v \<Rightarrow> if truth rt v then v
                    else (case product ''Brand'' of
                            Some b \<Rightarrow> b | None \<Rightarrow> VStr (ascii ''Unknown''))
        | None \<Rightarrow> (case product ''Brand'' of Some b \<Rightarrow> b | None \<Rightarrow> VStr (ascii ''Unknown'')))"
    by (simp add: main_brand_def get_def get_default_def split: option.splits)
qed

theorem brand_fallback_witness:
  "make_product example_runtime soap_row
     = Inr \<lparr> product_id = ascii ''7'', name = ascii ''Soap'', brand = ascii ''Acme'',
             category = [], price = Float 12, description = [], sku = [], skin_types = [],
             ingredients = [], usage = [], image_urls = None, seo_content = None,
             enhanced_description = None \<rparr>
   \<and> soap_row ''Meta: _livora_brand_name'' = None
   \<and> soap_row ''Brand'' = Some (CStr (ascii ''Acme''))
   \<and> py_str example_runtime (CStr (ascii ''Acme'')) = ascii ''Acme''"
  using brand_fallback [of example_runtime soap_row _ Map.empty] soap_product
  by (simp add: soap_row_def)

text \<open>
  Claim C9, as stated, fails: an input that cannot be read and an input without rows give
  the same result.
\<close>

theorem unreadable_input_counterexample:
  "load_csv example_runtime (Inl ReadError) = load_csv example_runtime (Inr [])"
  by (simp add: load_csv_def)

text \<open>
  Claim C9, amended. When the input cannot be read, \<open>load_csv\<close> returns the empty list,
  the value it also returns for an input without rows, and \<open>run_full_pipeline\<close> answers
  both with the same error \<open>No products loaded\<close>: the returned values do not tell the
  two apart.
\<close>

theorem unreadable_input_is_empty_result:
  "load_csv rt (Inl e) = [] \<and> load_csv rt (Inr []) = []
   \<and> run_full_pipeline rt continue (Inl e) = Inl (ascii ''No products loaded'')
   \<and> run_full_pipeline rt continue (Inr []) = Inl (ascii ''No products loaded'')"
  by (simp add: load_csv_def run_full_pipeline_def)

section \<open>Aggregation\<close>

lemma set_first_seen: "set (first_seen xs) = set xs"
  by (induction xs) auto

lemma distinct_first_seen: "distinct (first_seen xs)"
  by (induction xs) (auto simp: set_first_seen)

lemma filter_first_seen: "filter P (first_seen xs) = first_seen (filter P xs)"
proof (induction xs)
  case Nil
  then show ?case by simp
next
  case (Cons x xs)
  have "filter P (filter (\<lambda>y. y \<noteq> x) (first_seen xs)) = filter (\<lambda>y. y \<noteq> x) (filter P (first_seen xs))"
    by (simp add: conj_commute)
  moreover have "\<not> P x \<Longrightarrow> filter (\<lambda>y. y \<noteq> x) (first_seen (filter P xs)) = first_seen (filter P xs)"
    by (auto simp: filter_id_conv set_first_seen)
  ultimately show ?case using Cons by simp
qed

lemma dict_modify_absent: "k \<notin> fst ` set d \<Longrightarrow> dict_modify d k f = d"
  by (induction d) (auto simp: dict_modify_def)

lemma dict_modify_append: "dict_modify (d @ e) k f = dict_modify d k f @ dict_modify e k f"
  by (simp add: dict_modify_def)

lemma group_step_new:
  "key p \<notin> fst ` set groups \<Longrightarrow> group_step key groups p = groups @ [(key p, [p])]"
  by (simp add: group_step_def dict_insert_def map_of_eq_None_iff dict_modify_append dict_modify_absent)
     (simp add: dict_modify_def)

lemma group_step_old:
  "key p \<in> fst ` set groups \<Longrightarrow>
   group_step key groups p = map (\<lambda>(k, xs). (k, if k = key p then xs @ [p] else xs)) groups"
  by (auto simp: group_step_def map_of_eq_None_iff dict_modify_def)

lemma group_loop_closed:
  "group_loop key groups ps =
     map (\<lambda>(k, xs). (k, xs @ filter (\<lambda>p. key p = k) ps)) groups
     @ map (\<lambda>k. (k, filter (\<lambda>p. key p = k) ps))
         (first_seen (filter (\<lambda>k. k \<notin> fst ` set groups) (map key ps)))"
proof (induction ps arbitrary: groups)
  case Nil
  then show ?case by simp
next
  case (Cons p ps)
  show ?case
  proof (cases "key p \<in> fst ` set groups")
    case True
    have keys: "fst ` set (map (\<lambda>(k, xs). (k, if k = key p then xs @ [p] else xs)) groups) = fst ` set groups"
      by force
    show ?thesis
      using True
      apply (simp add: group_step_old Cons.IH keys del: set_map)
      apply (auto simp: filter_first_seen[symmetric] intro!: map_cong filter_cong)
      done
  next
    case False
    have a: "filter (\<lambda>k. k \<noteq> key p \<and> k \<notin> fst ` set groups) (map key ps) 
        = filter (\<lambda>y. y \<noteq> key p) (filter (\<lambda>k. k \<notin> fst ` set groups) (map key ps))"
      by (simp add: conj_commute)
    show ?thesis
      using False
      apply (simp add: group_step_new Cons.IH a filter_first_seen[symmetric])
      apply (auto simp: image_iff intro!: map_cong)
      done
  qed
qed

lemma group_loop_spec: "group_loop key [] ps = spec_aggregate key ps"
  by (simp add: group_loop_closed spec_aggregate_def)

lemma brand_step_sim:
  "map (\<lambda>(k, bd). (k, bd_products bd))
     (dict_modify
        (dict_modify
           (if map_of brands (brand p) = None
            then dict_insert brands (brand p)
                   \<lparr> bd_name = brand p, bd_products = [], bd_categories = {},
                     bd_about = a, bd_philosophy = b, bd_products_count = 0 \<rparr>
            else brands)
           (brand p) (\<lambda>bd. bd\<lparr>bd_products := bd_products bd @ [p]\<rparr>))
        (brand p) (\<lambda>bd. bd\<lparr>bd_categories := insert (category p) (bd_categories bd)\<rparr>))
   = group_step brand (map (\<lambda>(k, bd). (k, bd_products bd)) brands) p"
proof (cases "brand p \<in> fst ` set brands")
  case True
  then have "brand p \<in> fst ` set (map (\<lambda>(k, bd). (k, bd_products bd)) brands)" by force
  with True show ?thesis
    by (auto simp: group_step_old map_of_eq_None_iff dict_modify_def)
next
  case False
  then have "brand p \<notin> fst ` set (map (\<lambda>(k, bd). (k, bd_products bd)) brands)" by force
  moreover from False have "\<And>b. (brand p, b) \<notin> set brands" by force
  ultimately show ?thesis using False
    by (auto simp: group_step_new map_of_eq_None_iff dict_modify_def dict_insert_def)
qed

lemma brand_loop_sim:
  "map (\<lambda>(k, bd). (k, bd_products bd)) (brand_pages_loop brands ps)
     = group_loop brand (map (\<lambda>(k, bd). (k, bd_products bd)) brands) ps"
proof (induction ps arbitrary: brands)
  case Nil
  then show ?case by simp
next
  case (Cons p ps)
  show ?case
    by (simp only: brand_pages_loop.simps Let_def Cons.IH brand_step_sim group_loop.simps)
qed

lemma generate_brand_pages_spec:
  "map (\<lambda>(k, bd). (k, bd_products bd)) (generate_brand_pages ps) = spec_aggregate brand ps"
proof -
  have "map (\<lambda>(k, bd). (k, bd_products bd)) (generate_brand_pages ps)
      = map (\<lambda>(k, bd). (k, bd_products bd)) (brand_pages_loop [] ps)"
    by (simp add: generate_brand_pages_def split_def)
  then show ?thesis by (simp add: brand_loop_sim group_loop_spec)
qed

lemma spec_aggregate_keys: "map fst (spec_aggregate key ps) = first_seen (map key ps)"
  by (simp add: spec_aggregate_def comp_def)

lemma filter_eq_single: "distinct xs \<Longrightarrow> x \<in> set xs \<Longrightarrow> filter (\<lambda>k. k = x) xs = [x]"
  by (induction xs) (auto simp: filter_id_conv filter_empty_conv)

lemma spec_aggregate_holder:
  assumes "p \<in> set ps"
  shows "map fst (filter (\<lambda>(k, xs). p \<in> set xs) (spec_aggregate key ps)) = [key p]"
proof -
  have "map fst (filter (\<lambda>(k, xs). p \<in> set xs) (spec_aggregate key ps))
      = filter (\<lambda>k. k = key p) (first_seen (map key ps))"
    using assms by (auto simp: spec_aggregate_def filter_map comp_def intro!: filter_cong)
  also have "\<dots> = [key p]"
    using assms by (intro filter_eq_single) (auto simp: distinct_first_seen set_first_seen)
  finally show ?thesis .
qed

lemma holder_via_products:
  assumes "map (\<lambda>(k, v). (k, f v)) d = spec_aggregate key ps" "p \<in> set ps"
  shows "map fst (filter (\<lambda>(k, v). p \<in> set (f v)) d) = [key p]"
proof -
  have "map fst (filter (\<lambda>(k, v). p \<in> set (f v)) d)
      = map fst (filter (\<lambda>(k, xs). p \<in> set xs) (map (\<lambda>(k, v). (k, f v)) d))"
    by (induction d) auto
  then show ?thesis using assms by (simp add: spec_aggregate_holder)
qed

lemma keys_via_products:
  assumes "map (\<lambda>(k, v). (g k, f v)) d = spec_aggregate key ps"
  shows "map g (map fst d) = first_seen (map key ps)"
proof -
  have "map g (map fst d) = map fst (map (\<lambda>(k, v). (g k, f v)) d)"
    by (induction d) auto
  then show ?thesis using assms by (simp add: spec_aggregate_keys)
qed


lemma add_to_pages_sim:
  assumes "add_to_pages key_of new_page Inr pages p = Inr pages1"
    and "\<And>k. page_products (new_page k) = []"
  shows "map (\<lambda>(k, pg). (Inr k, page_products pg)) pages1
       = group_step key_of (map (\<lambda>(k, pg). (Inr k, page_products pg)) pages) p"
proof -
  obtain k where k: "key_of p = Inr k"
    using assms(1) unfolding add_to_pages_def by (cases "key_of p") simp_all
  have pages1: "pages1 = dict_modify
      (if map_of pages k = None then dict_insert pages k (new_page k) else pages) k
      (\<lambda>pg. pg\<lparr>page_products := page_products pg @ [p]\<rparr>)"
    using assms(1) k unfolding add_to_pages_def by (simp add: Let_def)
  show ?thesis
  proof (cases "k \<in> fst ` set pages")
    case True
    then have "key_of p \<in> fst ` set (map (\<lambda>(k, pg). (Inr k, page_products pg)) pages)"
      using k by force
    with True show ?thesis
      by (auto simp: pages1 k group_step_old map_of_eq_None_iff dict_modify_def)
  next
    case False
    then have "key_of p \<notin> fst ` set (map (\<lambda>(k, pg). (Inr k, page_products pg)) pages)"
      using k by force
    moreover from False have "\<And>b. (k, b) \<notin> set pages" by force
    ultimately show ?thesis using False
      by (auto simp: pages1 k assms(2) group_step_new map_of_eq_None_iff dict_modify_def
          dict_insert_def)
  qed
qed

lemma organize_sim:
  assumes "organize key_of new_page Inr pages ps = Inr pages'"
    and "\<And>k. page_products (new_page k) = []"
  shows "map (\<lambda>(k, pg). (Inr k, page_products pg)) pages'
       = group_loop key_of (map (\<lambda>(k, pg). (Inr k, page_products pg)) pages) ps"
  using assms(1)
proof (induction ps arbitrary: pages)
  case Nil
  then show ?case by simp
next
  case (Cons p ps)
  from Cons.prems obtain pages1 where
    step: "add_to_pages key_of new_page Inr pages p = Inr pages1"
    and rest: "organize key_of new_page Inr pages1 ps = Inr pages'"
    by (cases "add_to_pages key_of new_page Inr pages p") simp_all
  from Cons.IH[OF rest] add_to_pages_sim[OF step assms(2)]
  show ?case by simp
qed

lemma agent_pages_spec:
  assumes "agent_generate_json_pages rt ds = Inr r"
  shows "map (\<lambda>(k, pg). (Inr k, page_products pg)) (jp_brands r)
       = spec_aggregate (\<lambda>d. as_key (get_default d ''brand'' (VStr (ascii ''Unknown'')))) ds"
    and "map (\<lambda>(k, pg). (Inr k, page_products pg)) (jp_categories r)
       = spec_aggregate (\<lambda>d. as_key (get_default d ''category'' (VStr (ascii ''Unknown'')))) ds"
proof -
  obtain brands where b: "organize (\<lambda>p. as_key (get_default p ''brand'' (VStr (ascii ''Unknown''))))
             (agent_brand_page rt) Inr [] ds = Inr brands"
    using assms unfolding agent_generate_json_pages_def
    by (cases "organize (\<lambda>p. as_key (get_default p ''brand'' (VStr (ascii ''Unknown''))))
             (agent_brand_page rt) Inr [] ds") simp_all
  obtain categories where c: "organize (\<lambda>p. as_key (get_default p ''category'' (VStr (ascii ''Unknown''))))
             (agent_category_page rt) Inr [] ds = Inr categories"
    using assms b unfolding agent_generate_json_pages_def
    by (cases "organize (\<lambda>p. as_key (get_default p ''category'' (VStr (ascii ''Unknown''))))
             (agent_category_page rt) Inr [] ds") simp_all
  obtain sitemap where s: "build_sitemap brands categories = Inr sitemap"
    using assms b c unfolding agent_generate_json_pages_def
    by (cases "build_sitemap brands categories") simp_all
  have r: "jp_brands r = brands" "jp_categories r = categories"
    using assms b c s unfolding agent_generate_json_pages_def by auto
  show "map (\<lambda>(k, pg). (Inr k, page_products pg)) (jp_brands r)
       = spec_aggregate (\<lambda>d. as_key (get_default d ''brand'' (VStr (ascii ''Unknown'')))) ds"
    using organize_sim[OF b] by (simp add: r agent_brand_page_def group_loop_spec)
  show "map (\<lambda>(k, pg). (Inr k, page_products pg)) (jp_categories r)
       = spec_aggregate (\<lambda>d. as_key (get_default d ''category'' (VStr (ascii ''Unknown'')))) ds"
    using organize_sim[OF c] by (simp add: r agent_category_page_def group_loop_spec)
qed

lemma distinct_keys_via_products:
  assumes "map (\<lambda>(k, v). (g k, f v)) d = spec_aggregate key ps"
  shows "distinct (map g (map fst d))"
proof -
  have "map g (map fst d) = first_seen (map key ps)"
    by (rule keys_via_products [OF assms])
  then show ?thesis by (metis distinct_first_seen)
qed

lemma woocommerce_row_plain:
  assumes "image_urls p = None" "seo_content p = None" "enhanced_description p = None"
  shows "woocommerce_row i p =
     Inr (Woo \<lparr> w_ID = i, w_Type = ascii ''simple'', w_SKU = sku p, w_Name = name p,
                w_Published = 1, w_Is_featured = 0, w_Visibility_in_catalog = ascii ''visible'',
                w_Short_description = take 200 (description p), w_Description = description p,
                w_Tax_status = ascii ''taxable'', w_In_stock = 1, w_Stock = 10,
                w_Regular_price = price p, w_Categories = category p, w_Tags = [],
                w_Images = [], w_wpseo_title = VStr [], w_wpseo_metadesc = VStr [],
                w_wpseo_focuskw = VStr [] \<rparr>)"
  using assms
  by (simp add: woocommerce_row_def focus_keyword_def seo_get_def or_text_def or_list_def)

lemma write_rows_ok:
  "\<forall>p\<in>set ps. \<forall>j. \<exists>row. make_row j p = Inr row \<Longrightarrow>
   \<exists>rows. write_rows make_row i written ps = Inr (written @ rows)
      \<and> map Inr rows = map (\<lambda>(j, p). make_row j p) (zip [i..<i + length ps] ps)"
proof (induction ps arbitrary: i written)
  case Nil
  then show ?case by simp
next
  case (Cons p ps)
  from Cons.prems have "\<exists>row. make_row i p = Inr row" by simp
  then obtain row where row: "make_row i p = Inr row" by blast
  from Cons.prems have "\<forall>p\<in>set ps. \<forall>j. \<exists>row. make_row j p = Inr row" by simp
  from Cons.IH[OF this, of "Suc i" "written @ [row]"] obtain rows where
    rows: "write_rows make_row (Suc i) (written @ [row]) ps = Inr ((written @ [row]) @ rows)"
      "map Inr rows = map (\<lambda>(j, p). make_row j p) (zip [Suc i..<Suc i + length ps] ps)"
    by blast
  have "[i..<i + length (p # ps)] = i # [Suc i..<Suc i + length ps]"
    by (simp add: upt_rec)
  with row rows show ?case by (intro exI[of _ "row # rows"]) simp
qed

lemma export_plain:
  assumes "\<forall>p\<in>set ps. image_urls p = None \<and> seo_content p = None \<and> enhanced_description p = None"
  shows "\<exists>rows. export_to_csv ps (ascii ''woocommerce'') = Inr rows
     \<and> map Inr rows = map (\<lambda>(j, p). woocommerce_row j p) (zip [1..<Suc (length ps)] ps)"
proof -
  have "\<forall>p\<in>set ps. \<forall>j. \<exists>row. woocommerce_row j p = Inr row"
    using assms by (simp add: woocommerce_row_plain)
  from write_rows_ok[OF this, of 1 "[]"] show ?thesis
    by (auto simp: export_to_csv_def)
qed

lemma append_entries_closed:
  "set keys \<subseteq> fst ` set pages \<Longrightarrow>
   append_entries prefix pages keys sitemap =
     Inr (sitemap @ map (\<lambda>k. \<lparr>url = prefix @ page_slug (the (map_of pages k)),
                              changefreq = ascii ''weekly'', priority = ascii ''0.7''\<rparr>) keys)"
proof (induction keys arbitrary: sitemap)
  case Nil
  then show ?case by simp
next
  case (Cons k keys)
  from Cons.prems have "k \<in> fst ` set pages" by simp
  then have "map_of pages k \<noteq> None" by (simp add: map_of_eq_None_iff)
  then obtain pg where "map_of pages k = Some pg" by blast
  with Cons show ?case by simp
qed

lemma entries_of_pages:
  "distinct (map fst pages) \<Longrightarrow>
   map (\<lambda>k. f (the (map_of pages k))) (map fst pages) = map (\<lambda>(k, pg). f pg) pages"
  by (auto simp: map_of_eq_Some_iff[THEN iffD2])

lemma append_entries_pages:
  assumes "distinct (map fst pages)"
  shows "append_entries prefix pages (map fst pages) sitemap =
     Inr (sitemap @ map (\<lambda>(k, pg). \<lparr>url = prefix @ page_slug pg,
                              changefreq = ascii ''weekly'', priority = ascii ''0.7''\<rparr>) pages)"
proof -
  have "set (map fst pages) \<subseteq> fst ` set pages" by simp
  from append_entries_closed[OF this]
  show ?thesis
    using entries_of_pages[OF assms, of "\<lambda>pg. \<lparr>url = prefix @ page_slug pg,
                              changefreq = ascii ''weekly'', priority = ascii ''0.7''\<rparr>"]
    by simp
qed

lemma build_sitemap_closed:
  assumes "distinct (map fst brands)" "distinct (map fst categories)"
  shows "build_sitemap brands categories =
     Inr (sitemap_head
          @ map (\<lambda>(k, pg). \<lparr>url = ascii ''/brand/'' @ page_slug pg,
                    changefreq = ascii ''weekly'', priority = ascii ''0.7''\<rparr>) brands
          @ map (\<lambda>(k, pg). \<lparr>url = ascii ''/category/'' @ page_slug pg,
                    changefreq = ascii ''weekly'', priority = ascii ''0.7''\<rparr>) categories)"
  by (simp add: build_sitemap_def append_entries_pages[OF assms(1)] append_entries_pages[OF assms(2)])

lemma split_from_nonempty: "split_from sep piece s \<noteq> []"
  by (induction sep piece s rule: split_from.induct) auto

lemma join_Cons: "rest \<noteq> [] \<Longrightarrow> join sep (x # rest) = x @ sep @ join sep rest"
  by (cases rest) auto

lemma join_split_single:
  "join new (split_from [a] piece s) = piece @ concat (map (\<lambda>c. if c = a then new else [c]) s)"
proof (induction s arbitrary: piece)
  case Nil
  then show ?case by simp
next
  case (Cons c cs)
  then show ?case
    by (simp add: startswith_def join_Cons split_from_nonempty)
qed

lemma replace_single:
  "replace s [a] new = concat (map (\<lambda>c. if c = a then new else [c]) s)"
  by (simp add: replace_def join_split_single)

lemma concat_map_single: "concat (map (\<lambda>c. [f c]) s) = map f s"
  by (induction s) auto

lemma brand_slug_chars:
  "page_slug (main_brand_page rt n) =
     concat (map (\<lambda>c. if c = 32 then [45] else if c = 39 then [] else [c]) (str_lower rt n))"
proof -
  have sp: "ascii '' '' = [32]" and hy: "ascii ''-'' = [45]" by (simp_all add: ascii_def)
  have "concat (map (\<lambda>c. if c = 39 then [] else [c])
          (concat (map (\<lambda>c. if c = 32 then [45] else [c]) s)))
      = concat (map (\<lambda>c. if c = 32 then [45] else if c = 39 then [] else [c]) s)" for s :: ustr
    by (induction s) auto
  then show ?thesis
    by (simp add: main_brand_page_def sp hy replace_single)
qed

lemma category_slug_chars:
  "page_slug (main_category_page rt n) = map (\<lambda>c. if c = 32 then 45 else c) (str_lower rt n)"
proof -
  have sp: "ascii '' '' = [32]" and hy: "ascii ''-'' = [45]" by (simp_all add: ascii_def)
  have "concat (map (\<lambda>c. if c = 32 then [45] else [c]) s) = map (\<lambda>c. if c = 32 then 45 else c) s" for s :: ustr
    by (induction s) auto
  then show ?thesis
    by (simp add: main_category_page_def sp hy replace_single)
qed

lemma as_key_text: "is_text v \<Longrightarrow> \<exists>k. as_key v = Inr k"
  by (cases v) simp_all

lemma organize_total:
  "\<forall>p\<in>set ps. \<exists>k. key_of p = Inr k \<Longrightarrow>
   \<exists>pages'. organize key_of new_page Inr pages ps = Inr pages'"
proof (induction ps arbitrary: pages)
  case Nil
  then show ?case by simp
next
  case (Cons p ps)
  from Cons.prems have "\<exists>k. key_of p = Inr k" by simp
  then obtain k where k: "key_of p = Inr k" by blast
  then obtain pages1 where step: "add_to_pages key_of new_page Inr pages p = Inr pages1"
    by (simp add: add_to_pages_def Let_def)
  from Cons.prems have "\<forall>p\<in>set ps. \<exists>k. key_of p = Inr k" by simp
  from Cons.IH [OF this, of pages1] step show ?case by simp
qed

lemma organize_distinct:
  assumes "organize key_of new_page Inr [] ps = Inr pages"
    and "\<And>k. page_products (new_page k) = []"
  shows "distinct (map fst pages)"
proof -
  have "map (\<lambda>(k, pg). (Inr k, page_products pg)) pages = spec_aggregate key_of ps"
    using organize_sim [OF assms] by (simp add: group_loop_spec)
  from distinct_keys_via_products [OF this]
  have "distinct (map (Inr :: ustr \<Rightarrow> error + ustr) (map fst pages))" .
  then show ?thesis
    using distinct_map [of "Inr :: ustr \<Rightarrow> error + ustr" "map fst pages"] by blast
qed

lemma agent_total:
  assumes "\<forall>d\<in>set ds. is_text (get_default d ''brand'' (VStr (ascii ''Unknown'')))
                     \<and> is_text (get_default d ''category'' (VStr (ascii ''Unknown'')))"
  shows "\<exists>r. agent_generate_json_pages rt ds = Inr r"
proof -
  from assms have "\<forall>d\<in>set ds. \<exists>k. as_key (get_default d ''brand'' (VStr (ascii ''Unknown''))) = Inr k"
    by (simp add: as_key_text)
  from organize_total [OF this] obtain brands where
    b: "organize (\<lambda>p. as_key (get_default p ''brand'' (VStr (ascii ''Unknown''))))
          (agent_brand_page rt) Inr [] ds = Inr brands"
    by blast
  from assms have "\<forall>d\<in>set ds. \<exists>k. as_key (get_default d ''category'' (VStr (ascii ''Unknown''))) = Inr k"
    by (simp add: as_key_text)
  from organize_total [OF this] obtain categories where
    c: "organize (\<lambda>p. as_key (get_default p ''category'' (VStr (ascii ''Unknown''))))
          (agent_category_page rt) Inr [] ds = Inr categories"
    by blast
  have "distinct (map fst brands)"
    by (rule organize_distinct [OF b]) (simp add: agent_brand_page_def)
  moreover have "distinct (map fst categories)"
    by (rule organize_distinct [OF c]) (simp add: agent_category_page_def)
  ultimately obtain sitemap where "build_sitemap brands categories = Inr sitemap"
    using build_sitemap_closed by blast
  with b c show ?thesis by (simp add: agent_generate_json_pages_def)
qed

lemma holder_via_keyed_products:
  assumes "map (\<lambda>(k, v). (g k, f v)) d = spec_aggregate key ps" "p \<in> set ps"
  shows "map g (map fst (filter (\<lambda>(k, v). p \<in> set (f v)) d)) = [key p]"
proof -
  have "map g (map fst (filter (\<lambda>(k, v). p \<in> set (f v)) d))
      = map fst (filter (\<lambda>(k, xs). p \<in> set xs) (map (\<lambda>(k, v). (g k, f v)) d))"
    by (induction d) auto
  then show ?thesis using assms by (simp add: spec_aggregate_holder)
qed

text \<open>
  Claim C5. \<open>generate_brand_pages\<close> and the developer agent's \<open>_generate_json_pages\<close>
  aggregate as the specification says: the keys of the map are the brands (categories)
  in first-seen order, each once, and the products of a key are the products of the input
  with that key, in input order. So every product of the input is in the products of
  exactly one aggregate, the one of its brand (category). \<open>generate_brand_pages\<close> builds
  brand aggregates only. The agent returns a result whenever the brand and the category
  of every product is a text or missing, and this holds of every result it returns.
\<close>

theorem aggregation_first_seen:
  "map (\<lambda>(k, bd). (k, bd_products bd)) (generate_brand_pages ps) = spec_aggregate brand ps
   \<and> distinct (map fst (generate_brand_pages ps))
   \<and> (p \<in> set ps \<longrightarrow>
        map fst (filter (\<lambda>(k, bd). p \<in> set (bd_products bd)) (generate_brand_pages ps))
          = [brand p])
   \<and> ((\<forall>d\<in>set ds. is_text (get_default d ''brand'' (VStr (ascii ''Unknown'')))
                    \<and> is_text (get_default d ''category'' (VStr (ascii ''Unknown''))))
        \<longrightarrow> (\<exists>r. agent_generate_json_pages rt ds = Inr r))
   \<and> (agent_generate_json_pages rt ds = Inr r \<longrightarrow>
        map (\<lambda>(k, pg). (Inr k, page_products pg)) (jp_brands r)
          = spec_aggregate (\<lambda>d. as_key (get_default d ''brand'' (VStr (ascii ''Unknown'')))) ds
      \<and> map (\<lambda>(k, pg). (Inr k, page_products pg)) (jp_categories r)
          = spec_aggregate (\<lambda>d. as_key (get_default d ''category'' (VStr (ascii ''Unknown'')))) ds
      \<and> distinct (map fst (jp_brands r)) \<and> distinct (map fst (jp_categories r))
      \<and> (d \<in> set ds \<longrightarrow>
           map Inr (map fst (filter (\<lambda>(k, pg). d \<in> set (page_products pg)) (jp_brands r)))
             = [as_key (get_default d ''brand'' (VStr (ascii ''Unknown'')))]
         \<and> map Inr (map fst (filter (\<lambda>(k, pg). d \<in> set (page_products pg)) (jp_categories r)))
             = [as_key (get_default d ''category'' (VStr (ascii ''Unknown'')))]))"
proof (intro conjI impI)
  show spec: "map (\<lambda>(k, bd). (k, bd_products bd)) (generate_brand_pages ps)
      = spec_aggregate brand ps"
    by (rule generate_brand_pages_spec)
  from distinct_keys_via_products [of "\<lambda>k. k" bd_products "generate_brand_pages ps" brand ps] spec
  show "distinct (map fst (generate_brand_pages ps))"
    by simp
  show "map fst (filter (\<lambda>(k, bd). p \<in> set (bd_products bd)) (generate_brand_pages ps))
      = [brand p]" if "p \<in> set ps"
    using holder_via_products [OF spec that] .
next
  assume "\<forall>d\<in>set ds. is_text (get_default d ''brand'' (VStr (ascii ''Unknown'')))
                    \<and> is_text (get_default d ''category'' (VStr (ascii ''Unknown'')))"
  then show "\<exists>r. agent_generate_json_pages rt ds = Inr r" by (rule agent_total)
next
  assume r: "agent_generate_json_pages rt ds = Inr r"
  show b: "map (\<lambda>(k, pg). (Inr k, page_products pg)) (jp_brands r)
      = spec_aggregate (\<lambda>d. as_key (get_default d ''brand'' (VStr (ascii ''Unknown'')))) ds"
    by (rule agent_pages_spec(1) [OF r])
  show c: "map (\<lambda>(k, pg). (Inr k, page_products pg)) (jp_categories r)
      = spec_aggregate (\<lambda>d. as_key (get_default d ''category'' (VStr (ascii ''Unknown'')))) ds"
    by (rule agent_pages_spec(2) [OF r])
  have "distinct (map (Inr :: ustr \<Rightarrow> error + ustr) (map fst (jp_brands r)))"
    by (rule distinct_keys_via_products [OF b])
  then show "distinct (map fst (jp_brands r))"
    using distinct_map [of "Inr :: ustr \<Rightarrow> error + ustr" "map fst (jp_brands r)"] by blast
  have "distinct (map (Inr :: ustr \<Rightarrow> error + ustr) (map fst (jp_categories r)))"
    by (rule distinct_keys_via_products [OF c])
  then show "distinct (map fst (jp_categories r))"
    using distinct_map [of "Inr :: ustr \<Rightarrow> error + ustr" "map fst (jp_categories r)"] by blast
  show "map Inr (map fst (filter (\<lambda>(k, pg). d \<in> set (page_products pg)) (jp_brands r)))
      = [as_key (get_default d ''brand'' (VStr (ascii ''Unknown'')))]" if "d \<in> set ds"
    by (rule holder_via_keyed_products [OF b that])
  show "map Inr (map fst (filter (\<lambda>(k, pg). d \<in> set (page_products pg)) (jp_categories r)))
      = [as_key (get_default d ''category'' (VStr (ascii ''Unknown'')))]" if "d \<in> set ds"
    by (rule holder_via_keyed_products [OF c that])
qed

lemma example_aggregate:
  "spec_aggregate brand [acme_soap, zed_balm, acme_mask]
     = [(ascii ''Acme'', [acme_soap, acme_mask]), (ascii ''Zed'', [zed_balm])]"
  by (simp add: spec_aggregate_def acme_soap_def zed_balm_def acme_mask_def ascii_def)

lemma example_agent_aggregate:
  "spec_aggregate (\<lambda>d. as_key (get_default d ''brand'' (VStr (ascii ''Unknown''))))
       [acme_soap_dict, zed_balm_dict, acme_mask_dict]
     = [(Inr (ascii ''Acme''), [acme_soap_dict, acme_mask_dict]),
        (Inr (ascii ''Zed''), [zed_balm_dict])]"
  "spec_aggregate (\<lambda>d. as_key (get_default d ''category'' (VStr (ascii ''Unknown''))))
       [acme_soap_dict, zed_balm_dict, acme_mask_dict]
     = [(Inr (ascii ''Skin''), [acme_soap_dict, zed_balm_dict, acme_mask_dict])]"
  by (simp_all add: spec_aggregate_def get_default_def acme_soap_dict_def zed_balm_dict_def
      acme_mask_dict_def ascii_def)

theorem aggregation_first_seen_witness:
  "map (\<lambda>(k, bd). (k, bd_products bd)) (generate_brand_pages [acme_soap, zed_balm, acme_mask])
     = [(ascii ''Acme'', [acme_soap, acme_mask]), (ascii ''Zed'', [zed_balm])]
   \<and> map fst (filter (\<lambda>(k, bd). acme_mask \<in> set (bd_products bd))
                (generate_brand_pages [acme_soap, zed_balm, acme_mask]))
     = [ascii ''Acme'']
   \<and> map_sum id (\<lambda>r. map (\<lambda>(k, pg). (Inr k :: error + ustr, page_products pg)) (jp_brands r))
       (agent_generate_json_pages example_runtime [acme_soap_dict, zed_balm_dict, acme_mask_dict])
     = Inr [(Inr (ascii ''Acme''), [acme_soap_dict, acme_mask_dict]),
            (Inr (ascii ''Zed''), [zed_balm_dict])]
   \<and> map_sum id (\<lambda>r. map (\<lambda>(k, pg). (Inr k :: error + ustr, page_products pg)) (jp_categories r))
       (agent_generate_json_pages example_runtime [acme_soap_dict, zed_balm_dict, acme_mask_dict])
     = Inr [(Inr (ascii ''Skin''), [acme_soap_dict, zed_balm_dict, acme_mask_dict])]
   \<and> map_sum id
       (\<lambda>r. map (Inr :: ustr \<Rightarrow> error + ustr)
              (map fst (filter (\<lambda>(k, pg). zed_balm_dict \<in> set (page_products pg)) (jp_brands r))))
       (agent_generate_json_pages example_runtime [acme_soap_dict, zed_balm_dict, acme_mask_dict])
     = Inr [Inr (ascii ''Zed'')]"
proof -
  note t = aggregation_first_seen
    [where ps = "[acme_soap, zed_balm, acme_mask]" and p = acme_mask and rt = example_runtime
       and ds = "[acme_soap_dict, zed_balm_dict, acme_mask_dict]" and d = zed_balm_dict]
  have texts: "\<forall>d\<in>set [acme_soap_dict, zed_balm_dict, acme_mask_dict].
      is_text (get_default d ''brand'' (VStr (ascii ''Unknown'')))
      \<and> is_text (get_default d ''category'' (VStr (ascii ''Unknown'')))"
    by (simp add: get_default_def acme_soap_dict_def zed_balm_dict_def acme_mask_dict_def)
  from t texts obtain r where r:
    "agent_generate_json_pages example_runtime [acme_soap_dict, zed_balm_dict, acme_mask_dict]
       = Inr r"
    by blast
  have member: "acme_mask \<in> set [acme_soap, zed_balm, acme_mask]" by simp
  have member_dict: "zed_balm_dict \<in> set [acme_soap_dict, zed_balm_dict, acme_mask_dict]" by simp
  have brand_mask: "brand acme_mask = ascii ''Acme''"
    by (simp add: acme_mask_def acme_soap_def)
  have key_balm: "as_key (get_default zed_balm_dict ''brand'' (VStr (ascii ''Unknown'')))
      = Inr (ascii ''Zed'')"
    by (simp add: get_default_def zed_balm_dict_def)
  from t have a: "map (\<lambda>(k, bd). (k, bd_products bd))
        (generate_brand_pages [acme_soap, zed_balm, acme_mask])
      = [(ascii ''Acme'', [acme_soap, acme_mask]), (ascii ''Zed'', [zed_balm])]"
    by (simp only: example_aggregate)
  from t member have b: "map fst (filter (\<lambda>(k, bd). acme_mask \<in> set (bd_products bd))
        (generate_brand_pages [acme_soap, zed_balm, acme_mask])) = [ascii ''Acme'']"
    unfolding brand_mask by blast
  from t [of r] r have c: "map (\<lambda>(k, pg). (Inr k :: error + ustr, page_products pg)) (jp_brands r)
      = [(Inr (ascii ''Acme''), [acme_soap_dict, acme_mask_dict]),
         (Inr (ascii ''Zed''), [zed_balm_dict])]"
    unfolding example_agent_aggregate by blast
  from t [of r] r have d: "map (\<lambda>(k, pg). (Inr k :: error + ustr, page_products pg)) (jp_categories r)
      = [(Inr (ascii ''Skin''), [acme_soap_dict, zed_balm_dict, acme_mask_dict])]"
    unfolding example_agent_aggregate by blast
  from t [of r] r member_dict have e: "map (Inr :: ustr \<Rightarrow> error + ustr)
      (map fst (filter (\<lambda>(k, pg). zed_balm_dict \<in> set (page_products pg)) (jp_brands r)))
      = [Inr (ascii ''Zed'')]"
    unfolding key_balm by blast
  from a b c d e show ?thesis by (simp add: r)
qed

section \<open>Slugs\<close>

lemma spec_slug_chars:
  "spec_slug rt n =
     concat (map (\<lambda>c. if c = 32 then [45] else if c = 39 then [] else [c]) (str_lower rt n))"
  using brand_slug_chars [of rt n] by (simp add: main_brand_page_def spec_slug_def)

lemma main_brand_slug: "page_slug (main_brand_page rt n) = spec_slug rt n"
  by (simp add: main_brand_page_def spec_slug_def)

lemma other_slugs:
  "page_slug (main_category_page rt n) = map (\<lambda>c. if c = 32 then 45 else c) (str_lower rt n)"
  "page_slug (agent_brand_page rt n) = map (\<lambda>c. if c = 32 then 45 else c) (str_lower rt n)"
  "page_slug (agent_category_page rt n) = map (\<lambda>c. if c = 32 then 45 else c) (str_lower rt n)"
  using category_slug_chars [of rt n]
  by (simp_all add: main_category_page_def agent_brand_page_def agent_category_page_def)

lemma slug_divergence:
  assumes "39 \<in> set (str_lower rt n)"
  shows "page_slug (main_category_page rt n) \<noteq> spec_slug rt n"
proof -
  have "39 \<in> set (page_slug (main_category_page rt n))"
    using assms by (force simp: other_slugs(1))
  moreover have "39 \<notin> set (spec_slug rt n)"
    by (auto simp: spec_slug_chars split: if_splits)
  ultimately show ?thesis by metis
qed

text \<open>
  Claim C6, at a product with the brand L'Oreal Paris (written with e acute) and the
  category Men's Care, given to \<open>generate_json_pages\<close> of \<open>main.py\<close> under the keys
  \<open>Brand\<close> and \<open>Categories\<close> and to the developer agent under \<open>brand\<close> and
  \<open>category\<close>. The slug of the specification has no apostrophe; \<open>main.py\<close> computes
  it for the brand, but its category slug keeps the apostrophe, and so do both slugs of
  the agent.
\<close>

theorem category_slug_keeps_apostrophe:
  "spec_slug example_runtime loreal_paris = ascii ''lor'' @ [233] @ ascii ''al-paris''
   \<and> spec_slug example_runtime (ascii ''Men's Care'') = ascii ''mens-care''
   \<and> map_sum id
       (\<lambda>r. (map (\<lambda>(k, pg). page_slug pg) (jp_brands r),
             map (\<lambda>(k, pg). page_slug pg) (jp_categories r)))
       (generate_json_pages example_runtime [mens_care_product])
     = Inr ([ascii ''lor'' @ [233] @ ascii ''al-paris''], [ascii ''men's-care''])
   \<and> map_sum id
       (\<lambda>r. (map (\<lambda>(k, pg). page_slug pg) (jp_brands r),
             map (\<lambda>(k, pg). page_slug pg) (jp_categories r)))
       (agent_generate_json_pages example_runtime [mens_care_agent_product])
     = Inr ([ascii ''l'or'' @ [233] @ ascii ''al-paris''], [ascii ''men's-care''])"
proof (intro conjI)
  show "spec_slug example_runtime loreal_paris = ascii ''lor'' @ [233] @ ascii ''al-paris''"
    by (simp add: spec_slug_def loreal_paris_def example_runtime_def ascii_lower_def
        replace_def startswith_def ascii_def)
  show "spec_slug example_runtime (ascii ''Men's Care'') = ascii ''mens-care''"
    by (simp add: spec_slug_def example_runtime_def ascii_lower_def replace_def
        startswith_def ascii_def)
  show "map_sum id
       (\<lambda>r. (map (\<lambda>(k, pg). page_slug pg) (jp_brands r),
             map (\<lambda>(k, pg). page_slug pg) (jp_categories r)))
       (generate_json_pages example_runtime [mens_care_product])
     = Inr ([ascii ''lor'' @ [233] @ ascii ''al-paris''], [ascii ''men's-care''])"
    by (simp add: generate_json_pages_def mens_care_product_def loreal_paris_def
        add_to_pages_def main_brand_def get_def get_default_def dict_insert_def
        dict_modify_def main_brand_page_def main_category_page_def main_brand_item_def
        main_category_item_def split_field_def build_sitemap_def sitemap_head_def
        example_runtime_def ascii_lower_def replace_def startswith_def ascii_def)
  show "map_sum id
       (\<lambda>r. (map (\<lambda>(k, pg). page_slug pg) (jp_brands r),
             map (\<lambda>(k, pg). page_slug pg) (jp_categories r)))
       (agent_generate_json_pages example_runtime [mens_care_agent_product])
     = Inr ([ascii ''l'or'' @ [233] @ ascii ''al-paris''], [ascii ''men's-care''])"
    by (simp add: agent_generate_json_pages_def mens_care_agent_product_def loreal_paris_def
        add_to_pages_def get_def get_default_def dict_insert_def dict_modify_def
        agent_brand_page_def agent_category_page_def build_sitemap_def sitemap_head_def
        example_runtime_def ascii_lower_def replace_def startswith_def ascii_def)
qed

section \<open>Sitemap\<close>

text \<open>
  Claim C7. For every brand map and category map (dictionaries, so their keys are
  distinct) the sitemap block builds the four fixed entries, then one \<open>/brand/{slug}\<close>
  entry per brand in the order of the brand map, then one \<open>/category/{slug}\<close> entry per
  category in the order of the category map, the last two kinds weekly with priority
  0.7: 4 + brands + categories entries.
\<close>

theorem sitemap_layout:
  "distinct (map fst brands) \<and> distinct (map fst categories) \<longrightarrow>
     build_sitemap brands categories =
       Inr ([\<lparr>url = ascii ''/'', changefreq = ascii ''daily'', priority = ascii ''1.0''\<rparr>,
             \<lparr>url = ascii ''/products'', changefreq = ascii ''daily'', priority = ascii ''0.9''\<rparr>,
             \<lparr>url = ascii ''/brands'', changefreq = ascii ''weekly'', priority = ascii ''0.8''\<rparr>,
             \<lparr>url = ascii ''/categories'', changefreq = ascii ''weekly'',
               priority = ascii ''0.8''\<rparr>]
            @ map (\<lambda>(k, pg). \<lparr>url = ascii ''/brand/'' @ page_slug pg,
                      changefreq = ascii ''weekly'', priority = ascii ''0.7''\<rparr>) brands
            @ map (\<lambda>(k, pg). \<lparr>url = ascii ''/category/'' @ page_slug pg,
                      changefreq = ascii ''weekly'', priority = ascii ''0.7''\<rparr>) categories)
     \<and> map_sum id length (build_sitemap brands categories)
         = Inr (4 + length brands + length categories)"
proof
  assume "distinct (map fst brands) \<and> distinct (map fst categories)"
  then have "build_sitemap brands categories =
     Inr (sitemap_head
          @ map (\<lambda>(k, pg). \<lparr>url = ascii ''/brand/'' @ page_slug pg,
                    changefreq = ascii ''weekly'', priority = ascii ''0.7''\<rparr>) brands
          @ map (\<lambda>(k, pg). \<lparr>url = ascii ''/category/'' @ page_slug pg,
                    changefreq = ascii ''weekly'', priority = ascii ''0.7''\<rparr>) categories)"
    by (simp add: build_sitemap_closed)
  then show "build_sitemap brands categories =
       Inr ([\<lparr>url = ascii ''/'', changefreq = ascii ''daily'', priority = ascii ''1.0''\<rparr>,
             \<lparr>url = ascii ''/products'', changefreq = ascii ''daily'', priority = ascii ''0.9''\<rparr>,
             \<lparr>url = ascii ''/brands'', changefreq = ascii ''weekly'', priority = ascii ''0.8''\<rparr>,
             \<lparr>url = ascii ''/categories'', changefreq = ascii ''weekly'',
               priority = ascii ''0.8''\<rparr>]
            @ map (\<lambda>(k, pg). \<lparr>url = ascii ''/brand/'' @ page_slug pg,
                      changefreq = ascii ''weekly'', priority = ascii ''0.7''\<rparr>) brands
            @ map (\<lambda>(k, pg). \<lparr>url = ascii ''/category/'' @ page_slug pg,
                      changefreq = ascii ''weekly'', priority = ascii ''0.7''\<rparr>) categories)
     \<and> map_sum id length (build_sitemap brands categories)
         = Inr (4 + length brands + length categories)"
    by (simp add: sitemap_head_def)
qed

theorem sitemap_layout_witness:
  "map_sum id (map url) (build_sitemap example_brand_map example_category_map)
     = Inr [ascii ''/'', ascii ''/products'', ascii ''/brands'', ascii ''/categories'',
            ascii ''/brand/acme'', ascii ''/brand/zed'', ascii ''/category/skin'']
   \<and> map_sum id length (build_sitemap example_brand_map example_category_map) = Inr 7"
proof -
  have d: "distinct (map fst example_brand_map) \<and> distinct (map fst example_category_map)"
    by (simp add: example_brand_map_def example_category_map_def ascii_def)
  from sitemap_layout [of example_brand_map example_category_map] d
  have "build_sitemap example_brand_map example_category_map =
       Inr ([\<lparr>url = ascii ''/'', changefreq = ascii ''daily'', priority = ascii ''1.0''\<rparr>,
             \<lparr>url = ascii ''/products'', changefreq = ascii ''daily'', priority = ascii ''0.9''\<rparr>,
             \<lparr>url = ascii ''/brands'', changefreq = ascii ''weekly'', priority = ascii ''0.8''\<rparr>,
             \<lparr>url = ascii ''/categories'', changefreq = ascii ''weekly'',
               priority = ascii ''0.8''\<rparr>]
            @ map (\<lambda>(k, pg). \<lparr>url = ascii ''/brand/'' @ page_slug pg,
                      changefreq = ascii ''weekly'', priority = ascii ''0.7''\<rparr>) example_brand_map
            @ map (\<lambda>(k, pg). \<lparr>url = ascii ''/category/'' @ page_slug pg,
                      changefreq = ascii ''weekly'', priority = ascii ''0.7''\<rparr>)
                example_category_map)"
    by blast
  then show ?thesis
    by (simp add: example_brand_map_def example_category_map_def agent_brand_page_def
        agent_category_page_def example_runtime_def ascii_lower_def replace_def
        startswith_def ascii_def)
qed

section \<open>Commerce-schema export\<close>

text \<open>
  Claim C8. The commerce-schema row of a Product without enrichment has the original
  description as Description, its first 200 characters as Short description, empty SEO
  columns and Images, and the fixed literals; and the export of a list of such Products
  is the list of these rows, numbered from 1.
\<close>

theorem plain_export_row:
  "(image_urls p = None \<and> seo_content p = None \<and> enhanced_description p = None \<longrightarrow>
      woocommerce_row i p =
        Inr (Woo \<lparr> w_ID = i, w_Type = ascii ''simple'', w_SKU = sku p, w_Name = name p,
                   w_Published = 1, w_Is_featured = 0,
                   w_Visibility_in_catalog = ascii ''visible'',
                   w_Short_description = take 200 (description p),
                   w_Description = description p,
                   w_Tax_status = ascii ''taxable'', w_In_stock = 1, w_Stock = 10,
                   w_Regular_price = price p, w_Categories = category p, w_Tags = [],
                   w_Images = [], w_wpseo_title = VStr [], w_wpseo_metadesc = VStr [],
                   w_wpseo_focuskw = VStr [] \<rparr>))
   \<and> ((\<forall>q\<in>set ps. image_urls q = None \<and> seo_content q = None \<and> enhanced_description q = None)
      \<longrightarrow> (\<exists>rows. export_to_csv ps (ascii ''woocommerce'') = Inr rows
             \<and> map Inr rows = map (\<lambda>(j, q). woocommerce_row j q) (zip [1..<Suc (length ps)] ps)))"
  using woocommerce_row_plain [of p i] export_plain [of ps] by blast

theorem plain_export_row_witness:
  "image_urls acme_soap = None \<and> seo_content acme_soap = None
   \<and> enhanced_description acme_soap = None
   \<and> woocommerce_row 1 acme_soap =
        Inr (Woo \<lparr> w_ID = 1, w_Type = ascii ''simple'', w_SKU = ascii ''S1'',
                   w_Name = ascii ''Soap'', w_Published = 1, w_Is_featured = 0,
                   w_Visibility_in_catalog = ascii ''visible'',
                   w_Short_description = ascii ''Mild soap'',
                   w_Description = ascii ''Mild soap'',
                   w_Tax_status = ascii ''taxable'', w_In_stock = 1, w_Stock = 10,
                   w_Regular_price = Float 12, w_Categories = ascii ''Skin'', w_Tags = [],
                   w_Images = [], w_wpseo_title = VStr [], w_wpseo_metadesc = VStr [],
                   w_wpseo_focuskw = VStr [] \<rparr>)
   \<and> map_sum id length (export_to_csv [acme_soap, zed_balm] (ascii ''woocommerce'')) = Inr 2"
proof -
  have plain: "image_urls acme_soap = None \<and> seo_content acme_soap = None
      \<and> enhanced_description acme_soap = None"
    by (simp add: acme_soap_def)
  have plain2: "\<forall>q\<in>set [acme_soap, zed_balm].
      image_urls q = None \<and> seo_content q = None \<and> enhanced_description q = None"
    by (simp add: acme_soap_def zed_balm_def)
  note t = plain_export_row [of acme_soap 1 "[acme_soap, zed_balm]"]
  from t plain have row: "woocommerce_row 1 acme_soap =
        Inr (Woo \<lparr> w_ID = 1, w_Type = ascii ''simple'', w_SKU = sku acme_soap,
                   w_Name = name acme_soap,
                   w_Published = 1, w_Is_featured = 0,
                   w_Visibility_in_catalog = ascii ''visible'',
                   w_Short_description = take 200 (description acme_soap),
                   w_Description = description acme_soap,
                   w_Tax_status = ascii ''taxable'', w_In_stock = 1, w_Stock = 10,
                   w_Regular_price = price acme_soap, w_Categories = category acme_soap,
                   w_Tags = [], w_Images = [], w_wpseo_title = VStr [],
                   w_wpseo_metadesc = VStr [], w_wpseo_focuskw = VStr [] \<rparr>)"
    by blast
  from t plain2 obtain rows where
    rows: "export_to_csv [acme_soap, zed_balm] (ascii ''woocommerce'') = Inr rows"
      "map Inr rows = map (\<lambda>(j, q). woocommerce_row j q)
         (zip [1..<Suc (length [acme_soap, zed_balm])] [acme_soap, zed_balm])"
    by blast
  from arg_cong [OF rows(2), of length] have "length rows = 2" by simp
  with plain row rows(1) show ?thesis
    by (simp add: acme_soap_def ascii_def)
qed

end
